theory Spec2Isabelle
  imports Complex_Main "HOL-Library.Log_Nat" "HOL-Library.AList"
begin

section \<open>JavaScript numbers\<close>

text \<open>
  The trait generator and the colour describer of \<^verbatim>\<open>src/lib/trait-generator.ts\<close> compute
  with JavaScript numbers, that is IEEE 754 binary64 values. A finite double is modelled by
  the real number it denotes; every arithmetic operation computes the exact result
  and rounds it to the nearest double, ties to even (\<open>rnd64\<close>), overflowing to an
  infinity. \<open>NaN\<close> and the two infinities are separate values. The sign of zero is not
  modelled: \<open>-0\<close> and \<open>+0\<close> are both \<open>Num 0\<close>, and a division by zero takes the
  divisor as \<open>+0\<close>.
\<close>

datatype number = NaN | PInf | NInf | Num real

definition pow2 :: "int \<Rightarrow> real" where
  "pow2 e = (if 0 \<le> e then 2 ^ nat e else 1 / 2 ^ nat (- e))"

text \<open>\<open>ilog2 x\<close> is \<open>\<lfloor>log\<^sub>2 x\<rfloor>\<close> for a positive \<open>x\<close>.\<close>

definition ilog2 :: "real \<Rightarrow> int" where
  "ilog2 x = (if 1 \<le> x then bitlen \<lfloor>x\<rfloor> - 1 else - bitlen (\<lceil>1 / x\<rceil> - 1))"

definition roundHalfEven :: "real \<Rightarrow> int" where
  "roundHalfEven q = (let f = \<lfloor>q\<rfloor>; r = q - of_int f in
     if r < 1 / 2 then f else if 1 / 2 < r then f + 1 else if even f then f else f + 1)"

text \<open>
  Rounding to binary64: 53 significant bits, the exponent of the last bit never below
  \<open>-1074\<close> (subnormals), no upper bound on the exponent (overflow is decided by \<open>fin\<close>).
\<close>

definition rnd64 :: "real \<Rightarrow> real" where
  "rnd64 x = (if x = 0 then 0 else
     let e = max (- 1074) (ilog2 \<bar>x\<bar> - 52) in of_int (roundHalfEven (x / pow2 e)) * pow2 e)"

definition fin :: "real \<Rightarrow> number" where
  "fin x = (let y = rnd64 x in
     if 2 ^ 1024 \<le> y then PInf else if y \<le> - (2 ^ 1024) then NInf else Num y)"

text \<open>A decimal literal of the source denotes the double nearest to it.\<close>

definition lit :: "real \<Rightarrow> number" where
  "lit x = fin x"

fun isZero :: "number \<Rightarrow> bool" where
  "isZero (Num a) = (a = 0)"
| "isZero _ = False"

fun isNeg :: "number \<Rightarrow> bool" where
  "isNeg (Num a) = (a < 0)"
| "isNeg NInf = True"
| "isNeg _ = False"

fun fneg :: "number \<Rightarrow> number" where
  "fneg (Num a) = Num (- a)"
| "fneg PInf = NInf"
| "fneg NInf = PInf"
| "fneg NaN = NaN"

fun fadd :: "number \<Rightarrow> number \<Rightarrow> number" where
  "fadd (Num a) (Num b) = fin (a + b)"
| "fadd NaN _ = NaN"
| "fadd _ NaN = NaN"
| "fadd PInf NInf = NaN"
| "fadd NInf PInf = NaN"
| "fadd PInf _ = PInf"
| "fadd _ PInf = PInf"
| "fadd NInf _ = NInf"
| "fadd _ NInf = NInf"

definition fsub :: "number \<Rightarrow> number \<Rightarrow> number" where
  "fsub a b = fadd a (fneg b)"

fun fmul :: "number \<Rightarrow> number \<Rightarrow> number" where
  "fmul (Num a) (Num b) = fin (a * b)"
| "fmul NaN _ = NaN"
| "fmul _ NaN = NaN"
| "fmul a b = (if isZero a \<or> isZero b then NaN else if isNeg a = isNeg b then PInf else NInf)"

fun fdiv :: "number \<Rightarrow> number \<Rightarrow> number" where
  "fdiv (Num a) (Num b) =
     (if b = 0 then (if a = 0 then NaN else if 0 < a then PInf else NInf) else fin (a / b))"
| "fdiv NaN _ = NaN"
| "fdiv _ NaN = NaN"
| "fdiv (Num a) _ = Num 0"
| "fdiv a (Num b) = (if isNeg a = (b < 0) then PInf else NInf)"
| "fdiv _ _ = NaN"

text \<open>Comparisons: every comparison with \<open>NaN\<close> is false, also \<open>===\<close>.\<close>

fun flt :: "number \<Rightarrow> number \<Rightarrow> bool" where
  "flt (Num a) (Num b) = (a < b)"
| "flt NaN _ = False"
| "flt _ NaN = False"
| "flt _ NInf = False"
| "flt NInf _ = True"
| "flt PInf _ = False"
| "flt _ PInf = True"

definition fgt :: "number \<Rightarrow> number \<Rightarrow> bool" where
  "fgt a b = flt b a"

definition strictEq :: "number \<Rightarrow> number \<Rightarrow> bool" where
  "strictEq a b = (a \<noteq> NaN \<and> b \<noteq> NaN \<and> a = b)"

definition strictNe :: "number \<Rightarrow> number \<Rightarrow> bool" where
  "strictNe a b = (\<not> strictEq a b)"

definition fge :: "number \<Rightarrow> number \<Rightarrow> bool" where
  "fge a b = (fgt a b \<or> strictEq a b)"

fun Math_floor :: "number \<Rightarrow> number" where
  "Math_floor (Num a) = Num (of_int \<lfloor>a\<rfloor>)"
| "Math_floor a = a"

definition max2 :: "number \<Rightarrow> number \<Rightarrow> number" where
  "max2 a b = (if a = NaN \<or> b = NaN then NaN else if flt a b then b else a)"

definition min2 :: "number \<Rightarrow> number \<Rightarrow> number" where
  "min2 a b = (if a = NaN \<or> b = NaN then NaN else if flt b a then b else a)"

definition Math_max :: "number \<Rightarrow> number \<Rightarrow> number \<Rightarrow> number" where
  "Math_max a b c = max2 (max2 a b) c"

definition Math_min :: "number \<Rightarrow> number \<Rightarrow> number \<Rightarrow> number" where
  "Math_min a b c = min2 (min2 a b) c"

text \<open>
  \<open>array[index]\<close>: the element when the index is an integer within the array, and
  \<open>undefined\<close> (\<open>None\<close>) for every other number.
\<close>

fun subscript :: "'a list \<Rightarrow> number \<Rightarrow> 'a option" where
  "subscript xs (Num i) =
     (if 0 \<le> i \<and> i < of_nat (length xs) \<and> of_int \<lfloor>i\<rfloor> = i then Some (xs ! nat \<lfloor>i\<rfloor>) else None)"
| "subscript xs _ = None"

section \<open>Trait generator (\<^verbatim>\<open>src/lib/trait-generator.ts\<close>)\<close>

datatype gender = Male | Female

text \<open>
  \<open>WinterCheerTraits\<close>. The eight picked fields hold what \<open>pickRandom\<close> returns, which
  at run time is a catalog entry or \<open>undefined\<close> (\<open>None\<close>).
\<close>

record WinterCheerTraits =
  gender :: gender
  skinTone :: "string option"
  hairStyle :: "string option"
  hairColor :: string
  eyeStyle :: "string option"
  outfit :: "string option"
  outfitColor :: string
  accessory :: "string option"
  headAccessory :: "string option"
  background :: "string option"
  specialEffect :: "string option"

definition SKIN_TONES :: "string list" where
  "SKIN_TONES = [''Porcelain'', ''Fair'', ''Light'', ''Medium'', ''Tan'', ''Deep'']"

definition HAIR_STYLES :: "string list" where
  "HAIR_STYLES = [''Short Spiky'', ''Wavy Bob'', ''Long Straight'', ''Twin Tails'',
     ''Ponytail'', ''Messy Bun'', ''Braided Crown'', ''Side Part'', ''Curly Afro'',
     ''Pixie Cut'', ''Long Wavy'', ''Straight Bang'', ''Side Swept'', ''High Ponytail'',
     ''Low Pigtails'', ''Shoulder Length'', ''Wolf Cut'', ''Mullet'', ''Buzz Cut'',
     ''Dreadlocks'']"

definition EYE_STYLES :: "string list" where
  "EYE_STYLES = [''Round Sparkle'', ''Sleepy'', ''Cat Eyes'', ''Wide Innocent'', ''Sharp'',
     ''Determined'', ''Gentle'', ''Mysterious'', ''Happy Crescent'', ''Serious'',
     ''Cute Dot'', ''Starry'', ''Sad'', ''Closed Smile'', ''Intense'']"

definition OUTFITS :: "string list" where
  "OUTFITS = [''Santa Suit'', ''Ski Outfit'', ''Rudolf Costume'', ''Elf Outfit'',
     ''Snowman Costume'', ''Gingerbread Costume'', ''Ice Royalty'', ''Candy Cane Striped'',
     ''Mrs. Claus Dress'', ''Winter Warrior'']"

definition ACCESSORIES :: "string list" where
  "ACCESSORIES = [''Candy Cane'', ''Teddy Bear'', ''Gift Box'', ''Snowflake Wand'',
     ''Ornament Ball'', ''Jingle Bells'', ''Mistletoe Branch'', ''Winter Scarf'',
     ''Snow Globe'', ''Holiday Wreath'', ''Hot Cocoa Mug'', ''Gingerbread Cookie'',
     ''String Lights'', ''Poinsettia'', ''None'']"

definition HEAD_ACCESSORIES :: "string list" where
  "HEAD_ACCESSORIES = [''Santa Hat'', ''Reindeer Antlers'', ''Elf Hat'', ''Winter Beanie'',
     ''Fuzzy Earmuffs'', ''Holly Crown'', ''Snowflake Tiara'', ''Knit Cap'', ''Aviator Hat'',
     ''Halo'', ''Festive Headband'', ''None'']"

definition BACKGROUNDS :: "string list" where
  "BACKGROUNDS = [''Snowy Forest'', ''Cozy Fireplace Room'', ''North Pole Workshop'',
     ''Snow-Covered Village'', ''Starry Winter Night'', ''Aurora Borealis'',
     ''Candy Cane Land'', ''Santa'' @ [CHR 0x27] @ ''s Workshop Interior'', ''Ice Castle'',
     ''Christmas Tree Farm'']"

definition SPECIAL_EFFECTS :: "string list" where
  "SPECIAL_EFFECTS = [''Falling Snowflakes'', ''Magic Sparkles'', ''Festive Glow'',
     ''Frost Particles'', ''Golden Light'', ''Star Dust'', ''Aurora Shimmer'', ''None'']"

text \<open>
  \<open>seededRandom\<close> (lines 136-139). \<open>Math.sin\<close> is implementation-approximated in
  ECMAScript, so the platform's sine is the parameter \<open>Math_sin\<close>; \<open>sineArgument\<close> is
  the number it is applied to, \<open>fid * 12.9898 + seed * 78.233\<close>.
\<close>

definition sineArgument :: "number \<Rightarrow> number \<Rightarrow> number" where
  "sineArgument fid seed = fadd (fmul fid (lit (129898 / 10000))) (fmul seed (lit (78233 / 1000)))"

definition seededRandom :: "(number \<Rightarrow> number) \<Rightarrow> number \<Rightarrow> number \<Rightarrow> number" where
  "seededRandom Math_sin fid seed =
     (let x = fmul (Math_sin (sineArgument fid seed)) (lit (437585453 / 10000))
      in fsub x (Math_floor x))"

text \<open>\<open>pickRandom\<close> (lines 144-147).\<close>

definition pickRandom :: "(number \<Rightarrow> number) \<Rightarrow> 'a list \<Rightarrow> number \<Rightarrow> number \<Rightarrow> 'a option" where
  "pickRandom Math_sin array fid seed =
     (let index = Math_floor (fmul (seededRandom Math_sin fid seed) (Num (of_nat (length array))))
      in subscript array index)"

text \<open>\<open>generateTraits\<close> (lines 156-176).\<close>

definition generateTraits ::
  "(number \<Rightarrow> number) \<Rightarrow> number \<Rightarrow> gender \<Rightarrow> string \<Rightarrow> WinterCheerTraits" where
  "generateTraits Math_sin fid selectedGender dominantColor =
     \<lparr> gender = selectedGender,
       skinTone = pickRandom Math_sin SKIN_TONES fid (Num 1),
       hairStyle = pickRandom Math_sin HAIR_STYLES fid (Num 2),
       hairColor = dominantColor,
       eyeStyle = pickRandom Math_sin EYE_STYLES fid (Num 3),
       outfit = pickRandom Math_sin OUTFITS fid (Num 4),
       outfitColor = dominantColor,
       accessory = pickRandom Math_sin ACCESSORIES fid (Num 5),
       headAccessory = pickRandom Math_sin HEAD_ACCESSORIES fid (Num 6),
       background = pickRandom Math_sin BACKGROUNDS fid (Num 7),
       specialEffect = pickRandom Math_sin SPECIAL_EFFECTS fid (Num 8) \<rparr>"

text \<open>
  A sine for running \<open>generateTraits\<close>: the correctly rounded one, which returns the
  double nearest to the sine of its argument, and \<open>NaN\<close> for \<open>NaN\<close> and the infinities.
\<close>

fun roundedSine :: "number \<Rightarrow> number" where
  "roundedSine (Num a) = fin (sin a)"
| "roundedSine _ = NaN"

section \<open>JavaScript strings\<close>

text \<open>
  A string is modelled by the list of its UTF-16 code units, for code units below 256
  (the type \<open>char\<close> has 256 values).
\<close>

text \<open>\<open>str.substring(a, b)\<close> for \<open>0 \<le> a \<le> b\<close>.\<close>

definition substring :: "string \<Rightarrow> nat \<Rightarrow> nat \<Rightarrow> string" where
  "substring str a b = take (b - a) (drop a str)"

text \<open>\<open>str.toLowerCase()\<close>: the letters A-Z and the upper-case letters of Latin-1.\<close>

definition lowerChar :: "char \<Rightarrow> char" where
  "lowerChar c = (let n = of_char c :: nat in
     if (65 \<le> n \<and> n \<le> 90) \<or> (192 \<le> n \<and> n \<le> 222 \<and> n \<noteq> 215) then char_of (n + 32) else c)"

definition toLowerCase :: "string \<Rightarrow> string" where
  "toLowerCase str = map lowerChar str"

definition isWhiteSpace :: "char \<Rightarrow> bool" where
  "isWhiteSpace c = (of_char c \<in> {9, 10, 11, 12, 13, 32, 160 :: nat})"

definition hexDigit :: "char \<Rightarrow> nat option" where
  "hexDigit c = (let n = of_char c :: nat in
     if 48 \<le> n \<and> n \<le> 57 then Some (n - 48)
     else if 97 \<le> n \<and> n \<le> 102 then Some (n - 87)
     else if 65 \<le> n \<and> n \<le> 70 then Some (n - 55)
     else None)"

text \<open>
  \<open>parseInt(str, 16)\<close>: leading white space is skipped, then an optional sign, then an
  optional \<open>0x\<close>, then the longest run of hexadecimal digits; \<open>NaN\<close> when that run is
  empty.
\<close>

definition parseInt16 :: "string \<Rightarrow> number" where
  "parseInt16 str =
     (let s1 = dropWhile isWhiteSpace str;
          negative = (s1 \<noteq> [] \<and> hd s1 = CHR ''-'');
          s2 = (if s1 \<noteq> [] \<and> (hd s1 = CHR ''-'' \<or> hd s1 = CHR ''+'') then tl s1 else s1);
          s3 = (if 2 \<le> length s2 \<and> s2 ! 0 = CHR ''0'' \<and> (s2 ! 1 = CHR ''x'' \<or> s2 ! 1 = CHR ''X'')
                then drop 2 s2 else s2);
          digits = takeWhile (\<lambda>c. hexDigit c \<noteq> None) s3;
          v = foldl (\<lambda>acc c. 16 * acc + the (hexDigit c)) 0 digits
      in if digits = [] then NaN else fin (if negative then - real v else real v))"

section \<open>Colour names and the prompt (\<^verbatim>\<open>src/lib/trait-generator.ts\<close>)\<close>

text \<open>
  \<open>hexToColorName\<close> (lines 203-281) is split into the conversion to hue, saturation and
  lightness (lines 205-235), the four classifications (lines 238-243, 246-250, 258-262 and
  266-278) and the function itself.
\<close>

definition hexToHsl :: "string \<Rightarrow> number \<times> number \<times> number" where
  "hexToHsl hex =
     (let cleanHex = remove1 (CHR ''#'') hex;
          r = parseInt16 (substring cleanHex 0 2);
          g = parseInt16 (substring cleanHex 2 4);
          b = parseInt16 (substring cleanHex 4 6);
          rNorm = fdiv r (Num 255);
          gNorm = fdiv g (Num 255);
          bNorm = fdiv b (Num 255);
          mx = Math_max rNorm gNorm bNorm;
          mn = Math_min rNorm gNorm bNorm;
          delta = fsub mx mn;
          l = fdiv (fadd mx mn) (Num 2);
          s = (if strictNe delta (Num 0)
               then (if fgt l (lit (5 / 10)) then fdiv delta (fsub (fsub (Num 2) mx) mn)
                     else fdiv delta (fadd mx mn))
               else Num 0);
          h = (if strictNe delta (Num 0)
               then (if strictEq mx rNorm
                     then fdiv (fadd (fdiv (fsub gNorm bNorm) delta)
                                      (if flt gNorm bNorm then Num 6 else Num 0)) (Num 6)
                     else if strictEq mx gNorm
                     then fdiv (fadd (fdiv (fsub bNorm rNorm) delta) (Num 2)) (Num 6)
                     else fdiv (fadd (fdiv (fsub rNorm gNorm) delta) (Num 4)) (Num 6))
               else Num 0)
      in (h, s, l))"

definition brightnessOf :: "number \<Rightarrow> string" where
  "brightnessOf l =
     (if fgt l (lit (8 / 10)) then ''very light''
      else if fgt l (lit (6 / 10)) then ''light''
      else if fgt l (lit (4 / 10)) then ''medium''
      else if fgt l (lit (2 / 10)) then ''deep''
      else ''very dark'')"

definition saturationOf :: "number \<Rightarrow> string" where
  "saturationOf s =
     (if fgt s (lit (8 / 10)) then ''vivid''
      else if fgt s (lit (5 / 10)) then ''vibrant''
      else if fgt s (lit (2 / 10)) then ''muted''
      else ''pale'')"

definition grayscaleOf :: "number \<Rightarrow> string" where
  "grayscaleOf l =
     (if fgt l (lit (9 / 10)) then ''pure white''
      else if fgt l (lit (7 / 10)) then ''light gray''
      else if fgt l (lit (5 / 10)) then ''medium gray''
      else if fgt l (lit (3 / 10)) then ''dark gray''
      else ''black'')"

definition colorFamilyOf :: "number \<Rightarrow> string" where
  "colorFamilyOf hue =
     (if flt hue (Num 15) \<or> fge hue (Num 345) then ''red''
      else if flt hue (Num 45) then ''orange-red''
      else if flt hue (Num 70) then ''orange''
      else if flt hue (Num 90) then ''yellow-orange''
      else if flt hue (Num 150) then ''yellow-green''
      else if flt hue (Num 170) then ''green''
      else if flt hue (Num 200) then ''cyan-green''
      else if flt hue (Num 220) then ''cyan''
      else if flt hue (Num 250) then ''blue''
      else if flt hue (Num 280) then ''purple-blue''
      else if flt hue (Num 310) then ''purple''
      else if flt hue (Num 330) then ''magenta''
      else ''pink-red'')"

definition hexToColorName :: "string \<Rightarrow> string" where
  "hexToColorName hex =
     (case hexToHsl hex of (h, s, l) \<Rightarrow>
        let brightness = brightnessOf l;
            saturation = saturationOf s;
            hue = fmul h (Num 360)
        in if flt s (lit (1 / 10)) then grayscaleOf l
           else saturation @ '' '' @ brightness @ '' '' @ colorFamilyOf hue)"

text \<open>The test \<open>s < 0.1\<close> of line 256, on its own.\<close>

definition isGrayscale :: "string \<Rightarrow> bool" where
  "isGrayscale hex = (case hexToHsl hex of (h, s, l) \<Rightarrow> flt s (lit (1 / 10)))"

text \<open>
  \<open>buildPromptFromTraits\<close> (lines 286-302). Calling \<open>toLowerCase\<close> on a field that is
  \<open>undefined\<close> throws a \<open>TypeError\<close>.
\<close>

datatype js_error = TypeError

definition genderDescOf :: "gender \<Rightarrow> string" where
  "genderDescOf g =
     (if g = Male
      then ''masculine anime boy with sharp facial features, defined jawline, broader shoulders, boyish charm''
      else ''feminine anime girl with soft delicate features, gentle expression, graceful appearance, cute demeanor'')"

definition buildPromptFromTraits :: "WinterCheerTraits \<Rightarrow> js_error + string" where
  "buildPromptFromTraits traits =
     (let genderDesc = genderDescOf (gender traits);
          styleDesc = ''cute anime chibi character'';
          descriptiveColor = hexToColorName (hairColor traits);
          hairColorEmphasis = ''BRIGHT '' @ descriptiveColor @
            '' colored hair, the hair MUST be EXACTLY this '' @ descriptiveColor @ '' shade''
      in case (outfit traits, skinTone traits, hairStyle traits, eyeStyle traits,
               accessory traits, headAccessory traits, background traits, specialEffect traits) of
           (Some outfit', Some skinTone', Some hairStyle', Some eyeStyle',
            Some accessory', Some headAccessory', Some background', Some specialEffect') \<Rightarrow>
             (let outfitColorEmphasis = toLowerCase outfit' @ '' outfit that MUST be PRECISELY '' @
                    descriptiveColor @ '' color, matching the hair color EXACTLY''
              in Inr (styleDesc @ '' '' @ genderDesc @ '', '' @ toLowerCase skinTone' @
                   '' skin tone, '' @ toLowerCase hairStyle' @ '' hairstyle with '' @
                   hairColorEmphasis @ '', '' @ toLowerCase eyeStyle' @ '' eyes, wearing '' @
                   outfitColorEmphasis @ ''. CRITICAL: Both the hair AND outfit MUST be '' @
                   descriptiveColor @ '' color. Holding '' @ toLowerCase accessory' @
                   '', wearing '' @ toLowerCase headAccessory' @ '', '' @
                   toLowerCase background' @ '' background, '' @ toLowerCase specialEffect' @
                   '', kawaii Christmas aesthetic, Seal Online game character style, professional anime illustration, 4k quality, detailed and colorful. THE PRIMARY COLOR SCHEME MUST BE '' @
                   descriptiveColor @ '' for both hair and outfit - this is MANDATORY.''))
         | _ \<Rightarrow> Inl TypeError)"

text \<open>\<open>traitsToAttributes\<close> (lines 181-198).\<close>

record attribute =
  trait_type :: string
  trait_value :: "string option"

definition genderName :: "gender \<Rightarrow> string" where
  "genderName g = (if g = Male then ''Male'' else ''Female'')"

definition traitsToAttributes :: "WinterCheerTraits \<Rightarrow> attribute list" where
  "traitsToAttributes traits =
     [ \<lparr> trait_type = ''Gender'', trait_value = Some (genderName (gender traits)) \<rparr>,
       \<lparr> trait_type = ''Skin Tone'', trait_value = skinTone traits \<rparr>,
       \<lparr> trait_type = ''Hair Style'', trait_value = hairStyle traits \<rparr>,
       \<lparr> trait_type = ''Hair Color'', trait_value = Some (hairColor traits) \<rparr>,
       \<lparr> trait_type = ''Eye Style'', trait_value = eyeStyle traits \<rparr>,
       \<lparr> trait_type = ''Outfit'', trait_value = outfit traits \<rparr>,
       \<lparr> trait_type = ''Outfit Color'', trait_value = Some (outfitColor traits) \<rparr>,
       \<lparr> trait_type = ''Accessory'', trait_value = accessory traits \<rparr>,
       \<lparr> trait_type = ''Head Accessory'', trait_value = headAccessory traits \<rparr>,
       \<lparr> trait_type = ''Background'', trait_value = background traits \<rparr>,
       \<lparr> trait_type = ''Special Effect'', trait_value = specialEffect traits \<rparr> ]"

section \<open>Mint orchestrator (\<^verbatim>\<open>src/hooks/useWinterCheerMint.ts\<close>)\<close>

text \<open>
  A thrown value is an \<open>Error\<close> object with its message, or some other value. An
  awaited promise that rejects is a throw.
\<close>

datatype thrown = ErrorObject string | OtherValue

text \<open>
  The decimal digits of a natural number. A Farcaster identifier is a JavaScript number
  that holds a non-negative integer; as long as it is a safe integer, at most
  \<open>Number.MAX_SAFE_INTEGER = 2\<^sup>5\<^sup>3 - 1\<close>, the template literals of lines 149 and 218 print
  exactly these digits. Beyond that bound a natural number need not be a JavaScript
  number, and from \<open>10\<^sup>2\<^sup>1\<close> a number is printed with an exponent. Every statement below
  about a text made from an identifier is therefore restricted to identifiers up to
  \<open>MAX_SAFE_INTEGER\<close>. The other number printed this way is the status of an HTTP
  response, an integer of three digits.
\<close>

definition MAX_SAFE_INTEGER :: nat where
  "MAX_SAFE_INTEGER = 9007199254740991"

fun decimal :: "nat \<Rightarrow> string" where
  "decimal n =
     (if n < 10 then [''0123456789'' ! n] else decimal (n div 10) @ [''0123456789'' ! (n mod 10)])"

declare decimal.simps [simp del]

datatype step = Idle | Analyzing | Generating | Uploading | Minting | Success | Error

text \<open>\<open>MintState\<close> (lines 22-31); \<open>'t\<close> is the type \<open>NFTTraits\<close>.\<close>

record 't MintState =
  step :: step
  message :: string
  progress :: nat
  traits :: "'t option"
  previewImageUrl :: "string option"
  txHash :: "string option"
  tokenId :: "int option"
  error :: "string option"

text \<open>
  The values \<open>mintNFT\<close> closes over (its dependency list, line 297, and
  \<open>connectionRef.current\<close>). An object that is only tested for presence is a \<open>bool\<close>.
  The identifier \<open>fid\<close> is a non-negative integer; it stands for a JavaScript number only
  up to \<open>MAX_SAFE_INTEGER\<close>.
\<close>

record hookValues =
  isConnected :: bool
  address :: "string option"
  walletClient :: bool
  publicClient :: bool
  fid :: "nat option"
  pfpUrl :: "string option"
  selectedGender :: gender
  hasAlreadyMinted :: bool
  connectionRef :: bool

text \<open>\<open>!x\<close> for a string that may be undefined, and for a number that may be null.\<close>

definition falsyString :: "string option \<Rightarrow> bool" where
  "falsyString x = (x = None \<or> x = Some [])"

definition falsyNumber :: "nat option \<Rightarrow> bool" where
  "falsyNumber x = (x = None \<or> x = Some 0)"

text \<open>
  The functions \<open>mintNFT\<close> calls. None of them is defined in the repository's sources
  under the names and signatures the hook imports, so each is a parameter; each may throw.
  \<open>setOutfitColor\<close> is the assignment \<open>traits.outfitColor = adjustedColor\<close>.
\<close>

record colorAnalysis =
  hexColor :: string
  dominantColor :: string

record pinataResult =
  metadataIpfsUri :: string
  imageGatewayUrl :: string

record 't collaborators =
  analyzePfpColor :: "string \<Rightarrow> thrown + colorAnalysis"
  adjustColorForWinter :: "string \<Rightarrow> thrown + string"
  generateTraitsNFT :: "gender \<Rightarrow> string \<Rightarrow> nat \<Rightarrow> thrown + 't"
  setOutfitColor :: "'t \<Rightarrow> string \<Rightarrow> 't"
  buildAIPrompt :: "'t \<Rightarrow> thrown + string"
  generateNFTImage :: "string \<Rightarrow> thrown + string"
  generateTokenId :: "nat \<Rightarrow> thrown + int"
  dataUrlToBlob :: "string \<Rightarrow> thrown + string"
  generateMetadata :: "int \<Rightarrow> nat \<Rightarrow> 't \<Rightarrow> thrown + string"
  pinataUploadImageWithMetadata :: "string \<Rightarrow> string \<Rightarrow> string \<Rightarrow> thrown + pinataResult"
  prepareMintTransaction :: "string \<Rightarrow> nat \<Rightarrow> thrown + string"
  sendTransaction :: "string \<Rightarrow> thrown + string"
  waitForTransactionReceipt :: "string \<Rightarrow> thrown + unit"
  recordNewMint :: "nat \<Rightarrow> int \<Rightarrow> string \<Rightarrow> thrown + unit"
  saveNftMetadata :: "int \<Rightarrow> nat \<Rightarrow> string \<Rightarrow> string \<Rightarrow> string \<Rightarrow> thrown + unit"

datatype collaborator =
    AnalyzePfpColor | AdjustColorForWinter | GenerateTraits | BuildAIPrompt | GenerateNFTImage
  | GenerateTokenId | DataUrlToBlob | GenerateMetadata | PinataUpload | PrepareMintTransaction
  | SendTransaction | WaitForTransactionReceipt | RecordNewMint | SaveNftMetadata

text \<open>
  One run of \<open>mintNFT\<close>: the mint state it leaves, every state it has set with
  \<open>setMintState\<close> in order, and the collaborators it has called in order.
\<close>

record 't run =
  state :: "'t MintState"
  history :: "'t MintState list"
  calls :: "collaborator list"

definition setMintState :: "('t MintState \<Rightarrow> 't MintState) \<Rightarrow> 't run \<Rightarrow> 't run" where
  "setMintState update r = r\<lparr> state := update (state r), history := history r @ [update (state r)] \<rparr>"

text \<open>The \<open>catch\<close> block (lines 289-296).\<close>

definition catch :: "thrown \<Rightarrow> 't run \<Rightarrow> 't run" where
  "catch e r = setMintState (\<lambda>prev. prev\<lparr> step := Error,
       error := Some (case e of ErrorObject m \<Rightarrow> m | OtherValue \<Rightarrow> ''Unknown error occurred'') \<rparr>) r"

text \<open>A call inside the \<open>try\<close> block: recorded, then its result or the \<open>catch\<close> block.\<close>

definition invoke ::
  "collaborator \<Rightarrow> thrown + 'a \<Rightarrow> ('a \<Rightarrow> 't run \<Rightarrow> 't run) \<Rightarrow> 't run \<Rightarrow> 't run" where
  "invoke c result continue r =
     (let r' = r\<lparr> calls := calls r @ [c] \<rparr>
      in case result of Inl e \<Rightarrow> catch e r' | Inr v \<Rightarrow> continue v r')"

text \<open>
  The \<open>try\<close> block (lines 154-288), entered with wallet, identifier and picture present,
  in four parts, last part first: minting and recording (lines 228-287), uploading
  (lines 203-226), generating (lines 186-201), analysing (lines 155-184).
\<close>

definition mintingPart ::
  "hookValues \<Rightarrow> 't collaborators \<Rightarrow> string \<Rightarrow> nat \<Rightarrow> 't \<Rightarrow> string \<Rightarrow> int \<Rightarrow> string \<Rightarrow>
   pinataResult \<Rightarrow> 't run \<Rightarrow> 't run" where
  "mintingPart h c address' fid' traits' compressedDataUrl tokenId' metadata ipfsResult r9 =
     (let r10 = setMintState (\<lambda>prev. prev\<lparr> progress := 80 \<rparr>) r9;
          r11 = setMintState (\<lambda>prev. prev\<lparr> step := Minting,
                  message := ''Minting your NFT on Base...'', progress := 85 \<rparr>) r10;
          succeed = (\<lambda>hash r. setMintState (\<lambda>_. \<lparr> step = Success,
                  message = ''NFT minted successfully!'', progress = 100,
                  traits = Some traits', previewImageUrl = Some compressedDataUrl,
                  txHash = Some hash, tokenId = Some tokenId', error = None \<rparr>) r);
          recordMint = (\<lambda>hash r.
                  if connectionRef h
                  then invoke RecordNewMint (recordNewMint c fid' tokenId' address') (\<lambda>_ r.
                       invoke SaveNftMetadata (saveNftMetadata c tokenId' fid' metadata
                           (imageGatewayUrl ipfsResult) (metadataIpfsUri ipfsResult))
                         (\<lambda>_ r. succeed hash r) r) r
                  else succeed hash r)
      in invoke PrepareMintTransaction (prepareMintTransaction c address' fid') (\<lambda>mintTx r.
         invoke SendTransaction (sendTransaction c mintTx) (\<lambda>hash r12.
           let r13 = setMintState (\<lambda>prev. prev\<lparr> message := ''Waiting for confirmation...'',
                       progress := 90 \<rparr>) r12
           in if publicClient h
              then invoke WaitForTransactionReceipt (waitForTransactionReceipt c hash)
                     (\<lambda>_ r. recordMint hash r) r13
              else recordMint hash r13) r) r11)"

definition uploadingPart ::
  "hookValues \<Rightarrow> 't collaborators \<Rightarrow> string \<Rightarrow> nat \<Rightarrow> 't \<Rightarrow> string \<Rightarrow> 't run \<Rightarrow> 't run" where
  "uploadingPart h c address' fid' traits' compressedDataUrl r7 =
     (let r8 = setMintState (\<lambda>prev. prev\<lparr> step := Uploading,
                 message := ''Uploading to IPFS...'', progress := 70 \<rparr>) r7
      in invoke GenerateTokenId (generateTokenId c fid') (\<lambda>tokenId' r.
         invoke DataUrlToBlob (dataUrlToBlob c compressedDataUrl) (\<lambda>imageBlob r.
         invoke GenerateMetadata (generateMetadata c tokenId' fid' traits') (\<lambda>metadata r.
         invoke PinataUpload (pinataUploadImageWithMetadata c imageBlob
             (''winter-cheer-'' @ decimal fid' @ ''.png'') metadata) (\<lambda>ipfsResult r.
           mintingPart h c address' fid' traits' compressedDataUrl tokenId' metadata ipfsResult r)
         r) r) r) r8)"

definition generatingPart ::
  "hookValues \<Rightarrow> 't collaborators \<Rightarrow> string \<Rightarrow> nat \<Rightarrow> 't \<Rightarrow> 't run \<Rightarrow> 't run" where
  "generatingPart h c address' fid' traits' r4 =
     (let r5 = setMintState (\<lambda>prev. prev\<lparr> step := Generating,
                 message := ''Creating your unique character with AI...'', progress := 40 \<rparr>) r4
      in invoke BuildAIPrompt (buildAIPrompt c traits') (\<lambda>aiPrompt r.
         invoke GenerateNFTImage (generateNFTImage c aiPrompt) (\<lambda>compressedDataUrl r6.
           let r7 = setMintState (\<lambda>prev. prev\<lparr> previewImageUrl := Some compressedDataUrl,
                      progress := 60 \<rparr>) r6
           in uploadingPart h c address' fid' traits' compressedDataUrl r7) r) r5)"

definition tryBlock ::
  "hookValues \<Rightarrow> 't collaborators \<Rightarrow> string \<Rightarrow> nat \<Rightarrow> string \<Rightarrow> 't run \<Rightarrow> 't run" where
  "tryBlock h c address' fid' pfpUrl' r0 =
     (let r1 = setMintState (\<lambda>_. \<lparr> step = Analyzing,
                 message = ''Analyzing your profile picture...'', progress = 10, traits = None,
                 previewImageUrl = None, txHash = None, tokenId = None, error = None \<rparr>) r0
      in invoke AnalyzePfpColor (analyzePfpColor c pfpUrl') (\<lambda>analysis r.
         invoke AdjustColorForWinter (adjustColorForWinter c (hexColor analysis)) (\<lambda>adjustedColor r.
           let r2 = setMintState (\<lambda>prev. prev\<lparr> message := ''Generating unique traits...'',
                      progress := 20 \<rparr>) r
           in invoke GenerateTraits
                (generateTraitsNFT c (selectedGender h) (dominantColor analysis) fid')
                (\<lambda>generated r3.
                   let traits' = setOutfitColor c generated adjustedColor;
                       r4 = setMintState (\<lambda>prev. prev\<lparr> traits := Some traits',
                              progress := 30 \<rparr>) r3
                   in generatingPart h c address' fid' traits' r4) r2) r) r1)"

text \<open>The test of line 138.\<close>

definition missingContext :: "hookValues \<Rightarrow> bool" where
  "missingContext h =
     (\<not> isConnected h \<or> falsyString (address h) \<or> \<not> walletClient h \<or>
      falsyNumber (fid h) \<or> falsyString (pfpUrl h))"

text \<open>\<open>mintNFT\<close> (lines 137-297), run from the mint state \<open>s0\<close>.\<close>

definition mintNFT :: "hookValues \<Rightarrow> 't collaborators \<Rightarrow> 't MintState \<Rightarrow> 't run" where
  "mintNFT h c s0 =
     (let r0 = \<lparr> state = s0, history = [], calls = [] \<rparr>
      in if missingContext h
         then setMintState (\<lambda>prev. prev\<lparr> error :=
                Some ''Please connect wallet and ensure Farcaster context is loaded'' \<rparr>) r0
         else if hasAlreadyMinted h
         then setMintState (\<lambda>prev. prev\<lparr> error :=
                Some (''FID '' @ decimal (the (fid h)) @ '' has already minted a Winter Cheer NFT'') \<rparr>) r0
         else tryBlock h c (the (address h)) (the (fid h)) (the (pfpUrl h)) r0)"

text \<open>
  The page of the component \<open>MintInterface\<close> (\<^verbatim>\<open>unnamed/part_006\<close>, lines 339-552), which
  renders the values the hook returns and is the only caller of \<open>mintNFT\<close> (line 536).
  \<open>isLoading\<close> is line 354. The cards of the page that are rendered on a condition: the
  user card (lines 380-400), the already-minted card with the text \<open>You've already
  minted your Winter Cheer NFT!\<close> (lines 403-415), the gender selection (lines 418-443),
  the progress card (lines 446-461), the preview (lines 464-501), the success card (lines
  504-522), the error card with its text (lines 525-531), and the mint button (lines
  534-552), which is \<open>None\<close> when it is not rendered and otherwise carries its
  \<open>disabled\<close> attribute.
\<close>

definition isLoading :: "'t MintState \<Rightarrow> bool" where
  "isLoading mintState = (step mintState \<in> set [Analyzing, Generating, Uploading, Minting])"

record page =
  userCard :: bool
  alreadyMintedCard :: bool
  genderSelection :: bool
  progressCard :: bool
  previewCard :: bool
  successCard :: bool
  errorCard :: "string option"
  mintButton :: "bool option"

definition MintInterface :: "hookValues \<Rightarrow> bool \<Rightarrow> 't MintState \<Rightarrow> page" where
  "MintInterface h spaceConnected mintState =
     \<lparr> userCard = (\<not> falsyNumber (fid h)),
       alreadyMintedCard = hasAlreadyMinted h,
       genderSelection = (\<not> hasAlreadyMinted h \<and> step mintState = Idle),
       progressCard = isLoading mintState,
       previewCard = (\<not> falsyString (previewImageUrl mintState) \<and> traits mintState \<noteq> None),
       successCard = (step mintState = Success \<and> \<not> falsyString (txHash mintState)),
       errorCard = (if falsyString (error mintState) then None
                    else Some (''Error: '' @ the (error mintState))),
       mintButton = (if \<not> hasAlreadyMinted h \<and> step mintState \<noteq> Success
                     then Some (\<not> isConnected h \<or> falsyNumber (fid h) \<or> isLoading mintState \<or>
                                \<not> spaceConnected)
                     else None) \<rparr>"

text \<open>
  Concrete values for running \<open>mintNFT\<close>: a hook with wallet, identifier and picture
  present, collaborators that all succeed, and the initial mint state (lines 44-53).
\<close>

definition readyHook :: hookValues where
  "readyHook = \<lparr> isConnected = True, address = Some ''0xabc'', walletClient = True,
     publicClient = True, fid = Some 235940, pfpUrl = Some ''https://example.org/pfp.png'',
     selectedGender = Male, hasAlreadyMinted = False, connectionRef = True \<rparr>"

definition succeeding :: "unit collaborators" where
  "succeeding = \<lparr>
     analyzePfpColor = (\<lambda>_. Inr \<lparr> hexColor = ''#336699'', dominantColor = ''#306090'' \<rparr>),
     adjustColorForWinter = (\<lambda>color. Inr color),
     generateTraitsNFT = (\<lambda>_ _ _. Inr ()),
     setOutfitColor = (\<lambda>t _. t),
     buildAIPrompt = (\<lambda>_. Inr ''prompt''),
     generateNFTImage = (\<lambda>_. Inr ''data:image/png;base64,''),
     generateTokenId = (\<lambda>n. Inr (int n)),
     dataUrlToBlob = (\<lambda>url. Inr url),
     generateMetadata = (\<lambda>_ _ _. Inr ''{}''),
     pinataUploadImageWithMetadata = (\<lambda>_ _ _. Inr \<lparr> metadataIpfsUri = ''ipfs://metadata'',
       imageGatewayUrl = ''https://gateway/image'' \<rparr>),
     prepareMintTransaction = (\<lambda>_ _. Inr ''tx''),
     sendTransaction = (\<lambda>_. Inr ''0xhash''),
     waitForTransactionReceipt = (\<lambda>_. Inr ()),
     recordNewMint = (\<lambda>_ _ _. Inr ()),
     saveNftMetadata = (\<lambda>_ _ _ _ _. Inr ()) \<rparr>"

definition initialState :: "unit MintState" where
  "initialState = \<lparr> step = Idle, message = [], progress = 0, traits = None,
     previewImageUrl = None, txHash = None, tokenId = None, error = None \<rparr>"

section \<open>Sending notifications (\<^verbatim>\<open>src/app/api/send-notification/route.ts\<close>)\<close>

text \<open>\<open>SendNotificationRequest\<close> (lines 9-16); a field the request lacks is \<open>None\<close>.\<close>

record SendNotificationRequest =
  fids :: "nat list option"
  broadcast :: "bool option"
  notificationId :: "string option"
  title :: "string option"
  body :: "string option"
  targetUrl :: "string option"

record notificationToken =
  token :: string
  notificationUrl :: string

text \<open>
  What \<open>getActiveNotificationTokens\<close> resolves to (\<open>success\<close>, \<open>tokens\<close>, \<open>error\<close>) and
  what \<open>getNotificationTokenByFid\<close> resolves to (\<open>success\<close>, \<open>token\<close>).
\<close>

datatype tokensResult = TokensResult bool "notificationToken list option" "string option"

datatype tokenResult = TokenResult bool "notificationToken option"

text \<open>One \<open>fetch\<close> to a notification relay: the URL and the JSON payload (lines 166-182).\<close>

record delivery =
  relayUrl :: string
  payloadNotificationId :: string
  payloadTitle :: string
  payloadBody :: string
  payloadTargetUrl :: string
  payloadTokens :: "string list"

text \<open>
  What a relay does with a delivery: the request fails with a message, or it answers with
  a status that is not ok and a text, or it answers with its three token lists.
\<close>

datatype relayReply = Rejects string | NotOk nat string | Accepts "string list" "string list" "string list"

record notificationServices =
  getActiveNotificationTokens :: "thrown + tokensResult"
  getNotificationTokenByFid :: "nat \<Rightarrow> thrown + tokenResult"
  fetch :: "delivery \<Rightarrow> relayReply"

text \<open>
  The JSON responses: \<open>Failure status error\<close> is \<open>{success: false, error}\<close> with that
  status; \<open>NoTokens\<close> is the response of lines 131-136; \<open>Summary sent failed
  totalRecipients errors\<close> is the response of lines 244-250. The last two have status 200.
\<close>

datatype response = Failure nat string | NoTokens | Summary nat nat nat "string list"

text \<open>The outer \<open>catch\<close> block (lines 251-260).\<close>

definition internalError :: "thrown \<Rightarrow> response" where
  "internalError e = Failure 500 (case e of ErrorObject m \<Rightarrow> m | OtherValue \<Rightarrow> ''Unknown error'')"

text \<open>Determining the recipients (lines 76-128): a response that ends the request, or the tokens.\<close>

definition recipients :: "notificationServices \<Rightarrow> SendNotificationRequest \<Rightarrow> response + notificationToken list" where
  "recipients sv req =
     (if broadcast req = Some True
      then (case getActiveNotificationTokens sv of
              Inl e \<Rightarrow> Inl (internalError e)
            | Inr (TokensResult success tokens err) \<Rightarrow>
                if \<not> success \<or> tokens = None
                then Inl (Failure 500 (if falsyString err then ''Failed to fetch active tokens'' else the err))
                else Inr (the tokens))
      else if fids req \<noteq> None \<and> 0 < length (the (fids req))
      then (let tokenResults = map (getNotificationTokenByFid sv) (the (fids req))
            in case List.find isl tokenResults of
                 Some rejected \<Rightarrow> Inl (internalError (projl rejected))
               | None \<Rightarrow> Inr (concat (map (\<lambda>result. case projr result of
                     TokenResult success (Some t) \<Rightarrow> if success then [t] else []
                   | TokenResult success None \<Rightarrow> []) tokenResults)))
      else Inl (Failure 400 ''Either broadcast must be true or fids array must be provided''))"

text \<open>Batching (lines 139-144); \<open>slice xs a b\<close> is \<open>xs.slice(a, b)\<close> for \<open>0 \<le> a \<le> b\<close>.\<close>

definition batchSize :: nat where
  "batchSize = 100"

definition slice :: "'a list \<Rightarrow> nat \<Rightarrow> nat \<Rightarrow> 'a list" where
  "slice xs a b = take (b - a) (drop a xs)"

function batchesFrom :: "nat \<Rightarrow> 'a list \<Rightarrow> 'a list list" where
  "batchesFrom i xs =
     (if i < length xs then slice xs i (i + batchSize) # batchesFrom (i + batchSize) xs else [])"
  by pat_completeness auto
termination
  by (relation "measure (\<lambda>(i, xs). length xs - i)") (auto simp: batchSize_def)

declare batchesFrom.simps [simp del]

text \<open>
  Grouping a batch by notification URL (lines 150-159). The \<open>Map\<close> keeps its keys in the
  order of their first insertion; it is an association list.
\<close>

definition addToGroup ::
  "(string \<times> notificationToken list) list \<Rightarrow> notificationToken \<Rightarrow> (string \<times> notificationToken list) list" where
  "addToGroup urlGroups item =
     (let existing = (case map_of urlGroups (notificationUrl item) of Some items \<Rightarrow> items | None \<Rightarrow> [])
      in AList.update (notificationUrl item) (existing @ [item]) urlGroups)"

definition groupByUrl :: "notificationToken list \<Rightarrow> (string \<times> notificationToken list) list" where
  "groupByUrl batch = foldl addToGroup [] batch"

text \<open>The deliveries of one batch, one for each notification URL (lines 163-172).\<close>

definition batchDeliveries :: "SendNotificationRequest \<Rightarrow> notificationToken list \<Rightarrow> delivery list" where
  "batchDeliveries req batch =
     map (\<lambda>(url, items). \<lparr> relayUrl = url,
            payloadNotificationId = the (notificationId req), payloadTitle = the (title req),
            payloadBody = the (body req), payloadTargetUrl = the (targetUrl req),
            payloadTokens = map token items \<rparr>) (groupByUrl batch)"

text \<open>
  The counts and errors of one batch (lines 200-217), from the replies to its deliveries:
  (\<open>successfulCount\<close>, \<open>failedCount\<close>, \<open>errors\<close>).
\<close>

fun countReply :: "nat \<Rightarrow> nat \<times> nat \<times> string list \<Rightarrow> relayReply \<Rightarrow> nat \<times> nat \<times> string list" where
  "countReply batchLength (ok, failed, errors) (Accepts successful invalid rateLimited) =
     (ok + length successful, failed + (length invalid + length rateLimited), errors)"
| "countReply batchLength (ok, failed, errors) (Rejects m) = (ok, failed + batchLength, errors @ [m])"
| "countReply batchLength (ok, failed, errors) (NotOk status errorText) =
     (ok, failed + batchLength,
      errors @ [''Failed to send notification batch: '' @ decimal status @ '' '' @ errorText])"

definition batchResult :: "notificationServices \<Rightarrow> SendNotificationRequest \<Rightarrow> notificationToken list \<Rightarrow> nat \<times> nat \<times> string list" where
  "batchResult sv req batch =
     foldl (countReply (length batch)) (0, 0, []) (map (fetch sv) (batchDeliveries req batch))"

text \<open>
  \<open>POST\<close> (lines 18-261): the response, and the deliveries issued in order. The argument
  is what \<open>request.json()\<close> gives: the request, or a throw.
\<close>

definition POST :: "notificationServices \<Rightarrow> thrown + SendNotificationRequest \<Rightarrow> response \<times> delivery list" where
  "POST sv json =
     (case json of
        Inl e \<Rightarrow> (internalError e, [])
      | Inr req \<Rightarrow>
          if falsyString (title req) \<or> falsyString (body req)
          then (Failure 400 ''Title and body are required'', [])
          else if falsyString (notificationId req)
          then (Failure 400 ''notificationId is required for idempotency'', [])
          else if falsyString (targetUrl req)
          then (Failure 400 ''targetUrl is required'', [])
          else if 32 < length (the (title req))
          then (Failure 400 ''Title must be max 32 characters'', [])
          else if 128 < length (the (body req))
          then (Failure 400 ''Body must be max 128 characters'', [])
          else if 1024 < length (the (targetUrl req))
          then (Failure 400 ''targetUrl must be max 1024 characters'', [])
          else (case recipients sv req of
                  Inl resp \<Rightarrow> (resp, [])
                | Inr tokensToSend \<Rightarrow>
                    if length tokensToSend = 0 then (NoTokens, [])
                    else (let batches = batchesFrom 0 tokensToSend;
                              results = map (batchResult sv req) batches;
                              totalSuccessful = sum_list (map fst results);
                              totalFailed = sum_list (map (fst \<circ> snd) results);
                              allErrors = concat (map (snd \<circ> snd) results)
                          in (Summary totalSuccessful totalFailed (length tokensToSend) allErrors,
                              concat (map (batchDeliveries req) batches)))))"

text \<open>The number of tokens in all groups together, for the proofs about \<open>groupByUrl\<close>.\<close>

definition groupTotal :: "(string \<times> notificationToken list) list \<Rightarrow> nat" where
  "groupTotal urlGroups = sum_list (map (length \<circ> snd) urlGroups)"

text \<open>
  Concrete values for running \<open>POST\<close>: three active tokens on two relays that accept
  every token, and a broadcast request.
\<close>

definition exampleServices :: notificationServices where
  "exampleServices = \<lparr>
     getActiveNotificationTokens = Inr (TokensResult True (Some
       [\<lparr> token = ''t1'', notificationUrl = ''https://relay-a'' \<rparr>,
        \<lparr> token = ''t2'', notificationUrl = ''https://relay-b'' \<rparr>,
        \<lparr> token = ''t3'', notificationUrl = ''https://relay-a'' \<rparr>]) None),
     getNotificationTokenByFid = (\<lambda>_. Inr (TokenResult True None)),
     fetch = (\<lambda>d. Accepts (payloadTokens d) [] []) \<rparr>"

definition exampleRequest :: SendNotificationRequest where
  "exampleRequest = \<lparr> fids = None, broadcast = Some True, notificationId = Some ''winter-1'',
     title = Some ''Winter Cheer'', body = Some ''Minting is open'',
     targetUrl = Some ''https://example.org'' \<rparr>"

section \<open>An enclosure of \<open>\<pi>\<close> and approximations of its multiples\<close>

text \<open>
  Two rationals \<open>2\<^sup>-\<^sup>1\<^sup>2\<^sup>4\<close> apart that enclose \<open>\<pi>\<close>; they are compared with \<open>\<pi>\<close> by Machin's
  formula in \<open>pi_bounds\<close>.
\<close>

definition piLo :: real where
  "piLo = 66814286504060421741230023322616923956 / 2 ^ 124"

definition piHi :: real where
  "piHi = 66814286504060421741230023322616923957 / 2 ^ 124"

text \<open>
  The doubles from \<open>2\<^sup>i\<close> to \<open>2\<^sup>i\<^sup>+\<^sup>1\<close> are the numbers \<open>M * 2\<^sup>i\<^sup>-\<^sup>5\<^sup>2\<close> with
  \<open>2\<^sup>5\<^sup>2 \<le> M \<le> 2\<^sup>5\<^sup>3\<close>. A certificate for the exponent \<open>i\<close> is a pair of fractions \<open>p / q\<close>
  and \<open>p' / q'\<close> with \<open>p * q' - p' * q = \<plusminus>1\<close> that enclose \<open>\<pi> / 2\<^sup>i\<^sup>-\<^sup>5\<^sup>2\<close>, the second with
  a denominator beyond every multiple of \<open>\<pi>\<close> that a double of this exponent can be near,
  the first with \<open>q * \<pi>\<close> at least \<open>2\<^sup>-\<^sup>6\<^sup>0\<close> away from \<open>p * 2\<^sup>i\<^sup>-\<^sup>5\<^sup>2\<close>. \<open>cert_ok\<close> checks
  this with the enclosure of \<open>\<pi>\<close>; \<open>certificates\<close> lists, for every exponent from 6 to 56,
  two consecutive convergents of the continued fraction of \<open>\<pi> / 2\<^sup>i\<^sup>-\<^sup>5\<^sup>2\<close>.
\<close>

definition cert_ok :: "int \<Rightarrow> int \<times> int \<times> int \<times> int \<Rightarrow> bool" where
  "cert_ok i c = (case c of (p, q, p', q') \<Rightarrow>
     0 < q \<and> 0 < q' \<and> (p * q' - p' * q = 1 \<or> p * q' - p' * q = - 1) \<and>
     1 / 2 ^ 60 \<le> 2 ^ 52 * pow2 (i - 52) \<and>
     2 ^ 53 * pow2 (i - 52) + 1 \<le> of_int q' * piLo \<and>
     (of_int q * piHi + 1 / 2 ^ 60 \<le> of_int p * pow2 (i - 52) \<and>
        of_int p' * pow2 (i - 52) < of_int q' * piLo \<or>
      of_int p * pow2 (i - 52) + 1 / 2 ^ 60 \<le> of_int q * piLo \<and>
        of_int q' * piHi < of_int p' * pow2 (i - 52)))"

definition certificates :: "(int \<times> int \<times> int \<times> int \<times> int) list" where
  "certificates =
    [(6, 6411027962775774, 29, 2533240325015434285, 11459),
     (7, 3205513981387887, 29, 2536445838996822172, 22947),
     (8, 3205513981387887, 58, 1268222919498411086, 22947),
     (9, 3205513981387887, 116, 634111459749205543, 22947),
     (10, 3205513981387887, 232, 315452972883908828, 22831),
     (11, 3205513981387887, 464, 157726486441954414, 22831),
     (12, 3205513981387887, 928, 78863243220977207, 22831),
     (13, 3205513981387887, 1856, 37828864619794660, 21903),
     (14, 3205513981387887, 3712, 18914432309897330, 21903),
     (15, 3205513981387887, 7424, 9457216154948665, 21903),
     (16, 6331365068168276, 29327, 9457216154948665, 43806),
     (17, 3165682534084138, 29327, 9457216154948665, 87612),
     (18, 1582841267042069, 29327, 11040057421990734, 204551),
     (19, 5520028710995367, 204551, 34703013533014271, 1285960),
     (20, 5520028710995367, 409102, 14591492411009452, 1081409),
     (21, 7295746205504726, 1081409, 27407267327509545, 4062431),
     (22, 3647873102752363, 1081409, 31055140430261908, 9206271),
     (23, 3647873102752363, 2162818, 15527570215130954, 9206271),
     (24, 7763785107565477, 9206271, 919774515795478649, 1090665614),
     (25, 7763785107565477, 18412542, 456005365343956586, 1081459343),
     (26, 7763785107565477, 36825084, 228002682671978293, 1081459343),
     (27, 7763785107565477, 73650168, 110119448782206408, 1044634259),
     (28, 7763785107565477, 147300336, 55059724391103204, 1044634259),
     (29, 7763785107565477, 294600672, 27529862195551602, 1044634259),
     (30, 7763785107565477, 589201344, 13764931097775801, 1044634259),
     (31, 3000572995105162, 455432915, 10764358102670639, 1633835603),
     (32, 1500286497552581, 455432915, 12264644600223220, 3723104121),
     (33, 6132322300111610, 3723104121, 13764931097775801, 8357074072),
     (34, 3066161150055805, 3723104121, 16831092247831606, 20437252265),
     (35, 8415546123915803, 20437252265, 19897253397887411, 48320712772),
     (36, 5740853636985804, 27883460507, 14156399760901607, 68757965037),
     (37, 2870426818492902, 27883460507, 17026826579394509, 165399390581),
     (38, 1435213409246451, 27883460507, 17026826579394509, 330798781162),
     (39, 7795806585074029, 302915320655, 9231019994320480, 358682241669),
     (40, 4615509997160240, 358682241669, 100106006528278829, 7779475474690),
     (41, 2307754998580120, 358682241669, 102413761526858949, 15917633191049),
     (42, 1153877499290060, 358682241669, 103567639026149009, 32193948623767),
     (43, 576938749645030, 358682241669, 104144577775794039, 64746579489203),
     (44, 288469374822515, 358682241669, 104433047150616554, 129851841220075),
     (45, 288469374822515, 717364483338, 52216523575308277, 129851841220075),
     (46, 288469374822515, 1434728966676, 25964027100242881, 129134476736737),
     (47, 288469374822515, 2869457933352, 12837778862710183, 127699747770061),
     (48, 6563124118766349, 130569205703413, 78469020050373673, 1561091552574252),
     (49, 6563124118766349, 261138411406826, 35952947965803662, 1430522346870839),
     (50, 6563124118766349, 522276822813652, 17976473982901831, 1430522346870839),
     (51, 5706674932067741, 908245524057187, 12269799050834090, 1952799169684491),
     (52, 6134899525417045, 1952799169684491, 30246273033735921, 9627687726852338),
     (53, 6134899525417045, 3905598339368982, 12055686754159438, 7674888557167847),
     (54, 6027843377079719, 7674888557167847, 18190586279576483, 23160973793073658),
     (55, 6081371451248382, 15486085235905811, 12109214828328101, 30835862350241505),
     (56, 3040685725624191, 15486085235905811, 12109214828328101, 61671724700483010)]"

section \<open>The rounding function\<close>

lemma pow2_pos: "0 < pow2 e"
  by (simp add: pow2_def)

lemma pow2_powr: "pow2 e = 2 powr (of_int e)"
  by (simp add: pow2_def powr_real_of_int inverse_eq_divide)

lemma pow2_less_iff: "pow2 a < pow2 b \<longleftrightarrow> a < b"
  by (simp add: pow2_powr)

lemma pow2_add: "pow2 (a + b) = pow2 a * pow2 b"
  by (simp add: pow2_powr powr_add)

lemma pow2_minus: "pow2 (- k) = 1 / pow2 k"
  by (simp add: pow2_powr powr_minus_divide)

lemma pow2_nat: "0 \<le> k \<Longrightarrow> pow2 k = 2 ^ nat k"
  by (simp add: pow2_def)

text \<open>For a positive integer, \<open>bitlen\<close> brackets it between two powers of two.\<close>

lemma bitlen_pow2:
  assumes "0 < n"
  shows "pow2 (bitlen n - 1) \<le> of_int n" and "of_int n + 1 \<le> pow2 (bitlen n)"
proof -
  have k: "1 \<le> bitlen n"
    using assms by (simp add: bitlen_alt_def)
  from bitlen_bounds [OF assms]
  have lo: "(2::int) ^ nat (bitlen n - 1) \<le> n" and hi: "n + 1 \<le> 2 ^ nat (bitlen n)"
    by simp_all
  have "pow2 (bitlen n - 1) = of_int (2 ^ nat (bitlen n - 1))"
    using k by (simp add: pow2_nat)
  also have "\<dots> \<le> of_int n"
    using lo by (simp only: of_int_le_iff)
  finally show "pow2 (bitlen n - 1) \<le> of_int n" .
  have "real_of_int n + 1 = of_int (n + 1)"
    by simp
  also have "\<dots> \<le> of_int (2 ^ nat (bitlen n))"
    using hi by (simp only: of_int_le_iff)
  also have "\<dots> = pow2 (bitlen n)"
    using k by (simp add: pow2_nat)
  finally show "of_int n + 1 \<le> pow2 (bitlen n)" .
qed

text \<open>\<open>ilog2 x\<close> is the exponent of the power of two at or below \<open>x\<close>.\<close>

lemma ilog2_bounds:
  assumes "0 < x"
  shows "pow2 (ilog2 x) \<le> x" and "x < pow2 (ilog2 x + 1)"
proof -
  have "pow2 (ilog2 x) \<le> x \<and> x < pow2 (ilog2 x + 1)"
  proof (cases "1 \<le> x")
    case True
    define n where "n = \<lfloor>x\<rfloor>"
    have "0 < n"
      using True unfolding n_def by linarith
    note b = bitlen_pow2 [OF this]
    have "of_int n \<le> x" "x < of_int n + 1"
      unfolding n_def by linarith+
    with b have "pow2 (bitlen n - 1) \<le> x" "x < pow2 (bitlen n - 1 + 1)"
      by simp_all
    with True show ?thesis
      by (simp add: ilog2_def n_def)
  next
    case False
    define y where "y = 1 / x"
    define m where "m = \<lceil>y\<rceil> - 1"
    have y: "1 < y"
      using False assms by (simp add: y_def)
    have x: "x = 1 / y"
      by (simp add: y_def)
    have "0 < m"
      using y unfolding m_def by linarith
    note b = bitlen_pow2 [OF this]
    have "of_int m < y" "y \<le> of_int m + 1"
      unfolding m_def by linarith+
    with b have lo: "pow2 (bitlen m - 1) < y" and hi: "y \<le> pow2 (bitlen m)"
      by linarith+
    have "1 / pow2 (bitlen m) \<le> 1 / y"
      using hi y by (intro divide_left_mono) (simp_all add: pow2_pos)
    then have 1: "pow2 (- bitlen m) \<le> x"
      by (simp only: pow2_minus x)
    have "1 / y < 1 / pow2 (bitlen m - 1)"
      using lo pow2_pos [of "bitlen m - 1"] by (intro divide_strict_left_mono) simp_all
    then have "x < pow2 (- (bitlen m - 1))"
      by (simp only: pow2_minus x)
    then have 2: "x < pow2 (- bitlen m + 1)"
      by simp
    from 1 2 False show ?thesis
      by (simp add: ilog2_def m_def y_def)
  qed
  then show "pow2 (ilog2 x) \<le> x" and "x < pow2 (ilog2 x + 1)"
    by simp_all
qed

lemma roundHalfEven_error: "\<bar>of_int (roundHalfEven q) - q\<bar> \<le> 1 / 2"
  by (simp add: roundHalfEven_def Let_def)

lemma roundHalfEven_of_int: "roundHalfEven (of_int k) = k"
  by (simp add: roundHalfEven_def)

text \<open>The distance between a real and its double is at most half a unit in the last place.\<close>

lemma rnd64_error:
  assumes "x \<noteq> 0"
  shows "\<bar>rnd64 x - x\<bar> \<le> pow2 (max (- 1074) (ilog2 \<bar>x\<bar> - 52)) / 2"
proof -
  define e where "e = max (- 1074) (ilog2 \<bar>x\<bar> - 52)"
  define q where "q = x / pow2 e"
  have p: "0 < pow2 e"
    by (rule pow2_pos)
  have x: "x = q * pow2 e"
    using p by (simp add: q_def)
  have "rnd64 x - x = (of_int (roundHalfEven q) - q) * pow2 e"
    using assms by (simp add: rnd64_def Let_def algebra_simps flip: e_def q_def x)
  then have "\<bar>rnd64 x - x\<bar> = \<bar>of_int (roundHalfEven q) - q\<bar> * pow2 e"
    using p by (simp add: abs_mult)
  also have "\<dots> \<le> 1 / 2 * pow2 e"
    using roundHalfEven_error [of q] p by (intro mult_right_mono) simp_all
  finally show ?thesis
    by (simp add: e_def)
qed

text \<open>
  A double, that is a number \<open>m * 2\<^sup>e\<close> with \<open>\<bar>m\<bar> < 2\<^sup>5\<^sup>3\<close> and \<open>e \<ge> -1074\<close>, is rounded
  to itself.
\<close>

lemma rnd64_exact:
  assumes "\<bar>m\<bar> < 2 ^ 53" and "- 1074 \<le> e"
  shows "rnd64 (of_int m * pow2 e) = of_int m * pow2 e"
proof (cases "m = 0")
  case True
  then show ?thesis by (simp add: rnd64_def)
next
  case False
  define x where "x = of_int m * pow2 e"
  define e' where "e' = max (- 1074) (ilog2 \<bar>x\<bar> - 52)"
  have pos: "0 < \<bar>x\<bar>"
    using False pow2_pos [of e] by (simp add: x_def)
  have "\<bar>x\<bar> = of_int \<bar>m\<bar> * pow2 e"
    using pow2_pos [of e] by (simp add: x_def abs_mult)
  also have "\<dots> < of_int (2 ^ 53) * pow2 e"
    using assms(1) pow2_pos [of e] by (intro mult_strict_right_mono) (simp_all only: of_int_less_iff)
  also have "\<dots> = pow2 53 * pow2 e"
    by (simp add: pow2_def)
  also have "\<dots> = pow2 (53 + e)"
    by (simp only: pow2_add)
  finally have "pow2 (ilog2 \<bar>x\<bar>) < pow2 (53 + e)"
    using ilog2_bounds(1) [OF pos] by linarith
  then have "ilog2 \<bar>x\<bar> < 53 + e"
    by (simp only: pow2_less_iff)
  with assms(2) have le: "e' \<le> e"
    by (simp add: e'_def)
  have "pow2 e = pow2 (e - e') * pow2 e'"
    by (simp flip: pow2_add)
  also have "pow2 (e - e') = of_int (2 ^ nat (e - e'))"
    using le by (simp add: pow2_nat)
  finally have split: "pow2 e = of_int (2 ^ nat (e - e')) * pow2 e'" .
  have "x / pow2 e' = of_int (m * 2 ^ nat (e - e'))"
    using pow2_pos [of e'] by (simp add: x_def split)
  then have "roundHalfEven (x / pow2 e') = m * 2 ^ nat (e - e')"
    by (simp only: roundHalfEven_of_int)
  then have "rnd64 x = of_int (m * 2 ^ nat (e - e')) * pow2 e'"
    using pos by (simp add: rnd64_def Let_def flip: e'_def)
  also have "\<dots> = x"
    by (simp add: x_def split)
  finally show ?thesis
    by (simp add: x_def)
qed

section \<open>Evaluating the arithmetic\<close>

text \<open>
  Rewriting with these equations computes a concrete double. \<open>fin_eval\<close> decides the
  overflow test of \<open>fin\<close> without the number \<open>2 ^ 1024\<close> whenever the result is below
  \<open>2 ^ 64\<close>.
\<close>

lemma fin_eval:
  "fin x = (let y = rnd64 x in
     if \<bar>y\<bar> < 2 ^ 64 then Num y
     else if 2 ^ 1024 \<le> y then PInf else if y \<le> - (2 ^ 1024) then NInf else Num y)"
proof -
  have "(2::real) ^ 64 \<le> 2 ^ 1024"
    by (rule power_increasing) simp_all
  then show ?thesis
    by (auto simp: fin_def Let_def)
qed

lemmas num_eval =
  rnd64_def ilog2_def pow2_def roundHalfEven_def fin_eval lit_def Let_def compute_bitlen
  fsub_def fgt_def fge_def strictEq_def strictNe_def max2_def min2_def Math_max_def Math_min_def

lemmas str_eval = substring_def isWhiteSpace_def hexDigit_def parseInt16_def

lemmas color_eval =
  hexToColorName_def isGrayscale_def hexToHsl_def brightnessOf_def saturationOf_def
  grayscaleOf_def colorFamilyOf_def

text \<open>The doubles that the decimal literals of the source denote.\<close>

lemma literals:
  "lit (1 / 10) = Num (3602879701896397 / 36028797018963968)"
  "lit (2 / 10) = Num (3602879701896397 / 18014398509481984)"
  "lit (3 / 10) = Num (5404319552844595 / 18014398509481984)"
  "lit (4 / 10) = Num (3602879701896397 / 9007199254740992)"
  "lit (5 / 10) = Num (1 / 2)"
  "lit (6 / 10) = Num (5404319552844595 / 9007199254740992)"
  "lit (7 / 10) = Num (3152519739159347 / 4503599627370496)"
  "lit (8 / 10) = Num (3602879701896397 / 4503599627370496)"
  "lit (9 / 10) = Num (8106479329266893 / 9007199254740992)"
  "lit (129898 / 10000) = Num (7312607304952159 / 562949953421312)"
  "lit (78233 / 1000) = Num (1376289490812797 / 17592186044416)"
  "lit (437585453 / 10000) = Num (375883041968069 / 8589934592)"
  by (simp_all add: num_eval cong: let_weak_cong)

text \<open>The same, with the fractions in lowest terms, as the simplifier writes them.\<close>

lemma literals_reduced:
  "lit (1 / 5) = Num (3602879701896397 / 18014398509481984)"
  "lit (2 / 5) = Num (3602879701896397 / 9007199254740992)"
  "lit (1 / 2) = Num (1 / 2)"
  "lit (3 / 5) = Num (5404319552844595 / 9007199254740992)"
  "lit (4 / 5) = Num (3602879701896397 / 4503599627370496)"
  "lit (64949 / 5000) = Num (7312607304952159 / 562949953421312)"
  using literals by simp_all

section \<open>Properties of the trait generator\<close>

text \<open>
  \<open>pickRandom\<close> has no clamp: the index it computes is within the catalog exactly when
  \<open>seededRandom\<close> is below 1. In exact arithmetic \<open>x - \<lfloor>x\<rfloor>\<close> is always below 1; in
  binary64 the subtraction rounds to 1 when \<open>x\<close> is negative and small enough, and the
  element read is then \<open>undefined\<close>. The lemma shows this rounding for a function in
  place of the sine that returns \<open>-2\<^sup>-\<^sup>7\<^sup>0\<close> where the sine of the argument is about
  \<open>0.3\<close>. That the sine itself is never so small at an argument of \<open>generateTraits\<close> is
  the content of the last section.
\<close>

lemma seededRandom_rounds_to_one:
  "seededRandom (\<lambda>_. Num (- 1 / 2 ^ 70)) (Num 0) (Num 1) = Num 1 \<and>
   pickRandom (\<lambda>_. Num (- 1 / 2 ^ 70)) SKIN_TONES (Num 0) (Num 1) = None"
  by (simp add: pickRandom_def seededRandom_def sineArgument_def SKIN_TONES_def num_eval
      cong: let_weak_cong)

text \<open>
  C2. For fixed identifier, gender and colour, two calls of \<open>generateTraits\<close> with the
  same arguments return trait sets that are identical in every field. The function reads
  nothing but its arguments and the values of \<open>Math.sin\<close> at the eight numbers
  \<open>sineArgument ident seed\<close>, \<open>seed = 1, \<dots>, 8\<close>: the two calls may even run with two
  sines, as long as these agree at those eight numbers.
\<close>

theorem generateTraits_deterministic:
  assumes "ident' = ident" and "g' = g" and "color' = color"
    and "\<forall>seed \<in> {1, 2, 3, 4, 5, 6, 7, 8}.
           Math_sin' (sineArgument ident (Num seed)) = Math_sin (sineArgument ident (Num seed))"
  shows "generateTraits Math_sin' ident' g' color' = generateTraits Math_sin ident g color"
  using assms by (simp add: generateTraits_def pickRandom_def seededRandom_def)

lemma sineArgument_5:
  "sineArgument (Num 5) (Num 1) \<noteq> NaN" "sineArgument (Num 5) (Num 2) \<noteq> NaN"
  "sineArgument (Num 5) (Num 3) \<noteq> NaN" "sineArgument (Num 5) (Num 4) \<noteq> NaN"
  "sineArgument (Num 5) (Num 5) \<noteq> NaN" "sineArgument (Num 5) (Num 6) \<noteq> NaN"
  "sineArgument (Num 5) (Num 7) \<noteq> NaN" "sineArgument (Num 5) (Num 8) \<noteq> NaN"
  by (simp_all add: sineArgument_def literals literals_reduced num_eval cong: let_weak_cong)

lemma pickRandom_5_1:
  "pickRandom (\<lambda>_. Num (1 / 3)) SKIN_TONES (Num 5) (Num 1) = Some ''Fair''"
  by (simp add: pickRandom_def seededRandom_def sineArgument_def SKIN_TONES_def literals
      literals_reduced num_eval cong: let_weak_cong)

theorem generateTraits_deterministic_witness:
  "generateTraits (\<lambda>x. if x = NaN then Num 0 else Num (1 / 3)) (Num 5) Male ''#ff0000'' =
   generateTraits (\<lambda>_. Num (1 / 3)) (Num 5) Male ''#ff0000'' \<and>
   skinTone (generateTraits (\<lambda>_. Num (1 / 3)) (Num 5) Male ''#ff0000'') = Some ''Fair''"
proof -
  have "generateTraits (\<lambda>x. if x = NaN then Num 0 else Num (1 / 3)) (Num 5) Male ''#ff0000'' =
        generateTraits (\<lambda>_. Num (1 / 3)) (Num 5) Male ''#ff0000''"
    by (rule generateTraits_deterministic) (simp_all add: sineArgument_5)
  moreover have "skinTone (generateTraits (\<lambda>_. Num (1 / 3)) (Num 5) Male ''#ff0000'') = Some ''Fair''"
    by (simp add: generateTraits_def pickRandom_5_1)
  ultimately show ?thesis by simp
qed

text \<open>
  C3. For every identifier, gender and supplied colour, the trait set returned by
  \<open>generateTraits\<close> has \<open>hairColor\<close> and \<open>outfitColor\<close> both equal to the supplied
  colour: the two colour fields mirror the one colour passed in.
\<close>

theorem generateTraits_color_mirroring:
  "hairColor (generateTraits Math_sin ident g color) = color \<and>
   outfitColor (generateTraits Math_sin ident g color) = color \<and>
   hairColor (generateTraits Math_sin ident g color) =
     outfitColor (generateTraits Math_sin ident g color)"
  by (simp add: generateTraits_def)

text \<open>
  C4. For a fixed identifier, two calls of \<open>generateTraits\<close> that differ in the gender
  or in the supplied colour (or in both) return trait sets whose eight picked fields are
  equal: the picks depend on the identifier alone.
\<close>

theorem generateTraits_picks_ignore_gender_and_color:
  "skinTone (generateTraits Math_sin ident g1 c1) = skinTone (generateTraits Math_sin ident g2 c2) \<and>
   hairStyle (generateTraits Math_sin ident g1 c1) = hairStyle (generateTraits Math_sin ident g2 c2) \<and>
   eyeStyle (generateTraits Math_sin ident g1 c1) = eyeStyle (generateTraits Math_sin ident g2 c2) \<and>
   outfit (generateTraits Math_sin ident g1 c1) = outfit (generateTraits Math_sin ident g2 c2) \<and>
   accessory (generateTraits Math_sin ident g1 c1) = accessory (generateTraits Math_sin ident g2 c2) \<and>
   headAccessory (generateTraits Math_sin ident g1 c1) =
     headAccessory (generateTraits Math_sin ident g2 c2) \<and>
   background (generateTraits Math_sin ident g1 c1) = background (generateTraits Math_sin ident g2 c2) \<and>
   specialEffect (generateTraits Math_sin ident g1 c1) =
     specialEffect (generateTraits Math_sin ident g2 c2)"
  by (simp add: generateTraits_def)

section \<open>Properties of the colour names and the prompt\<close>

lemma colorFamilyOf_values:
  "colorFamilyOf (Num 0) = ''red''" "colorFamilyOf (Num 30) = ''orange-red''"
  "colorFamilyOf (Num 60) = ''orange''" "colorFamilyOf (Num 80) = ''yellow-orange''"
  "colorFamilyOf (Num 120) = ''yellow-green''" "colorFamilyOf (Num 160) = ''green''"
  "colorFamilyOf (Num 180) = ''cyan-green''" "colorFamilyOf (Num 210) = ''cyan''"
  "colorFamilyOf (Num 240) = ''blue''" "colorFamilyOf (Num 270) = ''purple-blue''"
  "colorFamilyOf (Num 300) = ''purple''" "colorFamilyOf (Num 320) = ''magenta''"
  "colorFamilyOf (Num 340) = ''pink-red''"
  by (simp_all add: colorFamilyOf_def fge_def fgt_def strictEq_def)

lemma colorFamilyOf_range:
  "range colorFamilyOf =
     {''red'', ''orange-red'', ''orange'', ''yellow-orange'', ''yellow-green'', ''green'',
      ''cyan-green'', ''cyan'', ''blue'', ''purple-blue'', ''purple'', ''magenta'', ''pink-red''}"
proof
  show "range colorFamilyOf \<subseteq>
     {''red'', ''orange-red'', ''orange'', ''yellow-orange'', ''yellow-green'', ''green'',
      ''cyan-green'', ''cyan'', ''blue'', ''purple-blue'', ''purple'', ''magenta'', ''pink-red''}"
    by (auto simp: colorFamilyOf_def)
  show "{''red'', ''orange-red'', ''orange'', ''yellow-orange'', ''yellow-green'', ''green'',
      ''cyan-green'', ''cyan'', ''blue'', ''purple-blue'', ''purple'', ''magenta'', ''pink-red''}
     \<subseteq> range colorFamilyOf"
    using colorFamilyOf_values [symmetric] by simp
qed

lemma brightnessOf_values:
  "brightnessOf (Num 1) = ''very light''" "brightnessOf (Num (7 / 10)) = ''light''"
  "brightnessOf (Num (1 / 2)) = ''medium''" "brightnessOf (Num (3 / 10)) = ''deep''"
  "brightnessOf (Num 0) = ''very dark''"
  by (simp_all add: brightnessOf_def fgt_def literals literals_reduced)

lemma brightnessOf_range:
  "range brightnessOf = {''very light'', ''light'', ''medium'', ''deep'', ''very dark''}"
proof
  show "range brightnessOf \<subseteq> {''very light'', ''light'', ''medium'', ''deep'', ''very dark''}"
    by (auto simp: brightnessOf_def)
  show "{''very light'', ''light'', ''medium'', ''deep'', ''very dark''} \<subseteq> range brightnessOf"
    using brightnessOf_values [symmetric] by simp
qed

lemma saturationOf_values:
  "saturationOf (Num 1) = ''vivid''" "saturationOf (Num (7 / 10)) = ''vibrant''"
  "saturationOf (Num (3 / 10)) = ''muted''" "saturationOf (Num 0) = ''pale''"
  by (simp_all add: saturationOf_def fgt_def literals literals_reduced)

lemma saturationOf_range:
  "range saturationOf = {''vivid'', ''vibrant'', ''muted'', ''pale''}"
proof
  show "range saturationOf \<subseteq> {''vivid'', ''vibrant'', ''muted'', ''pale''}"
    by (auto simp: saturationOf_def)
  show "{''vivid'', ''vibrant'', ''muted'', ''pale''} \<subseteq> range saturationOf"
    using saturationOf_values [symmetric] by simp
qed

lemma grayscaleOf_names:
  "grayscaleOf l \<in> {''pure white'', ''light gray'', ''medium gray'', ''dark gray'', ''black''}"
  by (simp add: grayscaleOf_def)

lemma hexToColorName_gray:
  "isGrayscale hex \<Longrightarrow>
   hexToColorName hex \<in> {''pure white'', ''light gray'', ''medium gray'', ''dark gray'', ''black''}"
  using grayscaleOf_names by (auto simp: isGrayscale_def hexToColorName_def Let_def split: prod.splits)

lemma hexToColorName_form:
  "\<not> isGrayscale hex \<Longrightarrow>
   \<exists>saturation \<in> range saturationOf. \<exists>brightness \<in> range brightnessOf.
     \<exists>family \<in> range colorFamilyOf.
       hexToColorName hex = saturation @ '' '' @ brightness @ '' '' @ family"
  by (auto simp: isGrayscale_def hexToColorName_def Let_def split: prod.splits)

text \<open>Thirteen colours, one in each hue family.\<close>

lemma hexToColorName_hues:
  "hexToColorName ''#ff0000'' = ''vivid medium red''"
  "hexToColorName ''#ff8000'' = ''vivid medium orange-red''"
  "hexToColorName ''#ffff00'' = ''vivid medium orange''"
  "hexToColorName ''#aaff00'' = ''vivid medium yellow-orange''"
  "hexToColorName ''#00ff00'' = ''vivid medium yellow-green''"
  "hexToColorName ''#00ffaa'' = ''vivid medium green''"
  "hexToColorName ''#00ffff'' = ''vivid medium cyan-green''"
  "hexToColorName ''#0080ff'' = ''vivid medium cyan''"
  "hexToColorName ''#0000ff'' = ''vivid medium blue''"
  "hexToColorName ''#8000ff'' = ''vivid medium purple-blue''"
  "hexToColorName ''#ff00ff'' = ''vivid medium purple''"
  "hexToColorName ''#ff00aa'' = ''vivid medium magenta''"
  "hexToColorName ''#ff0055'' = ''vivid medium pink-red''"
  by (simp_all add: color_eval str_eval literals literals_reduced num_eval cong: let_weak_cong)

text \<open>Colours in each brightness band, each saturation band and each grayscale band.\<close>

lemma hexToColorName_brightness:
  "hexToColorName ''#ffdddd'' = ''vivid very light red''"
  "hexToColorName ''#ff6666'' = ''vivid light red''"
  "hexToColorName ''#990000'' = ''vivid deep red''"
  "hexToColorName ''#330000'' = ''vivid very dark red''"
  by (simp_all add: color_eval str_eval literals literals_reduced num_eval cong: let_weak_cong)

lemma hexToColorName_saturation:
  "hexToColorName ''#cc3333'' = ''vibrant medium red''"
  "hexToColorName ''#aa5555'' = ''muted medium red''"
  "hexToColorName ''#886666'' = ''pale medium red''"
  by (simp_all add: color_eval str_eval literals literals_reduced num_eval cong: let_weak_cong)

lemma hexToColorName_grays:
  "hexToColorName ''#cccccc'' = ''light gray''"
  "hexToColorName ''#888888'' = ''medium gray''"
  "hexToColorName ''#606060'' = ''dark gray''"
  by (simp_all add: color_eval str_eval literals literals_reduced num_eval cong: let_weak_cong)

lemma hexToColorName_values:
  "hexToColorName ''#000000'' = ''black''"
  "hexToColorName ''#FFFFFF'' = ''pure white''"
  "hexToColorName ''#FF0000'' = ''vivid medium red''"
  by (simp_all add: color_eval str_eval literals literals_reduced num_eval cong: let_weak_cong)

lemma isGrayscale_values:
  "isGrayscale ''#000000''" "isGrayscale ''#FFFFFF''" "\<not> isGrayscale ''#FF0000''"
  by (simp_all add: color_eval str_eval literals literals_reduced num_eval cong: let_weak_cong)

lemma red_family:
  "(case hexToHsl ''#FF0000'' of (h, s, l) \<Rightarrow> colorFamilyOf (fmul h (Num 360))) = ''red''"
  by (simp add: color_eval str_eval literals literals_reduced num_eval cong: let_weak_cong)

text \<open>
  C5, as the claim states it: \<open>hexToColorName\<close> buckets hue into exactly 12 named colour
  families. This is false. The hue classification has thirteen values, and thirteen
  colours are named with thirteen different families.
\<close>

theorem hexToColorName_families_counterexample:
  "card (range colorFamilyOf) \<noteq> 12 \<and>
   map hexToColorName
     [''#ff0000'', ''#ff8000'', ''#ffff00'', ''#aaff00'', ''#00ff00'', ''#00ffaa'', ''#00ffff'',
      ''#0080ff'', ''#0000ff'', ''#8000ff'', ''#ff00ff'', ''#ff00aa'', ''#ff0055''] =
     [''vivid medium red'', ''vivid medium orange-red'', ''vivid medium orange'',
      ''vivid medium yellow-orange'', ''vivid medium yellow-green'', ''vivid medium green'',
      ''vivid medium cyan-green'', ''vivid medium cyan'', ''vivid medium blue'',
      ''vivid medium purple-blue'', ''vivid medium purple'', ''vivid medium magenta'',
      ''vivid medium pink-red'']"
  by (simp add: colorFamilyOf_range hexToColorName_hues)

text \<open>
  C5, amended. \<open>hexToColorName\<close> buckets hue into exactly 13 named colour families
  (red, orange-red, orange, yellow-orange, yellow-green, green, cyan-green, cyan, blue,
  purple-blue, purple, magenta, pink-red), lightness into exactly 5 bands and saturation
  into exactly 4 bands. Whenever the saturation is below the threshold 0.1 the result is
  one of the five grayscale names; every other result has the form
  \<open>saturation brightness family\<close>, drawn from those bands and families.
\<close>

theorem hexToColorName_bands:
  "range colorFamilyOf =
     {''red'', ''orange-red'', ''orange'', ''yellow-orange'', ''yellow-green'', ''green'',
      ''cyan-green'', ''cyan'', ''blue'', ''purple-blue'', ''purple'', ''magenta'', ''pink-red''} \<and>
   card (range colorFamilyOf) = 13 \<and>
   range brightnessOf = {''very light'', ''light'', ''medium'', ''deep'', ''very dark''} \<and>
   card (range brightnessOf) = 5 \<and>
   range saturationOf = {''vivid'', ''vibrant'', ''muted'', ''pale''} \<and>
   card (range saturationOf) = 4 \<and>
   (isGrayscale hex \<longrightarrow>
      hexToColorName hex \<in> {''pure white'', ''light gray'', ''medium gray'', ''dark gray'', ''black''}) \<and>
   (\<not> isGrayscale hex \<longrightarrow>
      (\<exists>saturation \<in> range saturationOf. \<exists>brightness \<in> range brightnessOf.
         \<exists>family \<in> range colorFamilyOf.
           hexToColorName hex = saturation @ '' '' @ brightness @ '' '' @ family))"
proof -
  have "card (range colorFamilyOf) = 13"
    by (simp add: colorFamilyOf_range)
  moreover have "card (range brightnessOf) = 5"
    by (simp add: brightnessOf_range)
  moreover have "card (range saturationOf) = 4"
    by (simp add: saturationOf_range)
  ultimately show ?thesis
    using colorFamilyOf_range brightnessOf_range saturationOf_range
      hexToColorName_gray [of hex] hexToColorName_form [of hex]
    by blast
qed

theorem hexToColorName_bands_witness:
  "isGrayscale ''#000000'' \<and>
   hexToColorName ''#000000'' \<in>
     {''pure white'', ''light gray'', ''medium gray'', ''dark gray'', ''black''} \<and>
   \<not> isGrayscale ''#FF0000'' \<and>
   (\<exists>saturation brightness family.
      saturation \<in> {''vivid'', ''vibrant'', ''muted'', ''pale''} \<and>
      brightness \<in> {''very light'', ''light'', ''medium'', ''deep'', ''very dark''} \<and>
      family \<in> range colorFamilyOf \<and>
      hexToColorName ''#FF0000'' = saturation @ '' '' @ brightness @ '' '' @ family)"
proof -
  have gray: "hexToColorName ''#000000'' \<in>
      {''pure white'', ''light gray'', ''medium gray'', ''dark gray'', ''black''}"
    using hexToColorName_bands [of "''#000000''"] isGrayscale_values(1) by blast
  have "\<exists>saturation \<in> range saturationOf. \<exists>brightness \<in> range brightnessOf.
      \<exists>family \<in> range colorFamilyOf.
        hexToColorName ''#FF0000'' = saturation @ '' '' @ brightness @ '' '' @ family"
    using hexToColorName_bands [of "''#FF0000''"] isGrayscale_values(3) by blast
  then have "\<exists>saturation brightness family.
      saturation \<in> {''vivid'', ''vibrant'', ''muted'', ''pale''} \<and>
      brightness \<in> {''very light'', ''light'', ''medium'', ''deep'', ''very dark''} \<and>
      family \<in> range colorFamilyOf \<and>
      hexToColorName ''#FF0000'' = saturation @ '' '' @ brightness @ '' '' @ family"
    unfolding saturationOf_range brightnessOf_range by blast
  with gray isGrayscale_values(1,3) show ?thesis
    by blast
qed

text \<open>
  C6. \<open>hexToColorName('#000000')\<close> is \<open>black\<close>, \<open>hexToColorName('#FFFFFF')\<close> is
  \<open>pure white\<close>, and \<open>hexToColorName('#FF0000')\<close> is a descriptor whose hue family is
  \<open>red\<close>: the grayscale case is taken for the first two colours and the hue
  classification for the third.
\<close>

theorem hexToColorName_samples:
  "hexToColorName ''#000000'' = ''black'' \<and>
   hexToColorName ''#FFFFFF'' = ''pure white'' \<and>
   hexToColorName ''#FF0000'' = ''vivid medium red'' \<and>
   (case hexToHsl ''#FF0000'' of (h, s, l) \<Rightarrow> colorFamilyOf (fmul h (Num 360))) = ''red'' \<and>
   isGrayscale ''#000000'' \<and> isGrayscale ''#FFFFFF'' \<and> \<not> isGrayscale ''#FF0000''"
  using hexToColorName_values isGrayscale_values red_family by blast

text \<open>
  C10. The prompt returned by \<open>buildPromptFromTraits\<close> does not depend on the
  \<open>outfitColor\<close> field: two trait sets that differ only in \<open>outfitColor\<close> give the same
  result, character for character.
\<close>

theorem buildPromptFromTraits_ignores_outfitColor:
  "buildPromptFromTraits (t\<lparr> outfitColor := color \<rparr>) = buildPromptFromTraits t"
  by (simp add: buildPromptFromTraits_def)

text \<open>
  C7. For every trait set, \<open>traitsToAttributes\<close> returns a list with exactly one entry for
  each of the eleven fields (so between 10 and 11 entries, gender included), whose
  \<open>trait_type\<close> values are, in order, the fixed labels Gender, Skin Tone, Hair Style,
  Hair Color, Eye Style, Outfit, Outfit Color, Accessory, Head Accessory, Background and
  Special Effect, and whose values are the corresponding fields of the trait set.
\<close>

theorem traitsToAttributes_complete:
  "length (traitsToAttributes t) = 11 \<and>
   10 \<le> length (traitsToAttributes t) \<and> length (traitsToAttributes t) \<le> 11 \<and>
   map trait_type (traitsToAttributes t) =
     [''Gender'', ''Skin Tone'', ''Hair Style'', ''Hair Color'', ''Eye Style'', ''Outfit'',
      ''Outfit Color'', ''Accessory'', ''Head Accessory'', ''Background'', ''Special Effect''] \<and>
   distinct (map trait_type (traitsToAttributes t)) \<and>
   set (map trait_type (traitsToAttributes t)) =
     {''Gender'', ''Skin Tone'', ''Hair Style'', ''Hair Color'', ''Eye Style'', ''Outfit'',
      ''Outfit Color'', ''Accessory'', ''Head Accessory'', ''Background'', ''Special Effect''} \<and>
   map trait_value (traitsToAttributes t) =
     [Some (genderName (gender t)), skinTone t, hairStyle t, Some (hairColor t), eyeStyle t,
      outfit t, Some (outfitColor t), accessory t, headAccessory t, background t,
      specialEffect t]"
  by (simp add: traitsToAttributes_def)

section \<open>Properties of the mint orchestrator\<close>

lemmas mint_eval =
  mintNFT_def tryBlock_def generatingPart_def uploadingPart_def mintingPart_def invoke_def
  catch_def setMintState_def missingContext_def falsyString_def falsyNumber_def
  readyHook_def succeeding_def initialState_def

text \<open>
  A run with wallet, identifier and picture present, no earlier mint and collaborators
  that succeed calls every collaborator and passes through every step.
\<close>

lemma mintNFT_runs_pipeline:
  "calls (mintNFT readyHook succeeding initialState) =
     [AnalyzePfpColor, AdjustColorForWinter, GenerateTraits, BuildAIPrompt, GenerateNFTImage,
      GenerateTokenId, DataUrlToBlob, GenerateMetadata, PinataUpload, PrepareMintTransaction,
      SendTransaction, WaitForTransactionReceipt, RecordNewMint, SaveNftMetadata]"
  "map step (history (mintNFT readyHook succeeding initialState)) =
     [Analyzing, Analyzing, Analyzing, Generating, Generating, Uploading, Uploading, Minting,
      Minting, Success]"
  by (simp_all add: mint_eval)

lemma decimal_235940: "decimal 235940 = ''235940''"
  by (simp add: decimal.simps)

text \<open>
  C8. If \<open>hasAlreadyMinted\<close> is true, a run of \<open>mintNFT\<close> stops before the analyzing
  step: it calls no collaborator (no colour analysis, trait generation, image generation,
  upload or mint transaction), it sets the mint state once, and every state it sets has
  the step the run started with, so the run never enters the analyzing, generating,
  uploading or minting step. The state it leaves differs from the state before only in
  \<open>error\<close>. The page rendered from that state is the already-minted presentation: it shows
  the already-minted card, shows neither the gender selection nor the mint button, from
  which alone \<open>mintNFT\<close> is started, and shows a progress card only if the run started in
  a loading step. The error the run sets is the message of the test of line 138 when
  wallet, identifier or picture is missing, and otherwise, for an identifier up to
  \<open>MAX_SAFE_INTEGER\<close>, the already-minted message of line 149 for that identifier.
\<close>

theorem mintNFT_already_minted:
  assumes "hasAlreadyMinted h"
  shows "calls (mintNFT h c s0) = [] \<and>
         history (mintNFT h c s0) = [state (mintNFT h c s0)] \<and>
         (\<forall>s \<in> set (history (mintNFT h c s0)). step s = step s0) \<and>
         state (mintNFT h c s0) = s0\<lparr> error := error (state (mintNFT h c s0)) \<rparr> \<and>
         alreadyMintedCard (MintInterface h spaceConnected (state (mintNFT h c s0))) \<and>
         \<not> genderSelection (MintInterface h spaceConnected (state (mintNFT h c s0))) \<and>
         mintButton (MintInterface h spaceConnected (state (mintNFT h c s0))) = None \<and>
         progressCard (MintInterface h spaceConnected (state (mintNFT h c s0))) = isLoading s0 \<and>
         (missingContext h \<longrightarrow> error (state (mintNFT h c s0)) =
            Some ''Please connect wallet and ensure Farcaster context is loaded'') \<and>
         (\<not> missingContext h \<longrightarrow> (\<forall>n \<le> MAX_SAFE_INTEGER. fid h = Some n \<longrightarrow>
            error (state (mintNFT h c s0)) =
              Some (''FID '' @ decimal n @ '' has already minted a Winter Cheer NFT'')))"
  using assms
  by (simp add: mintNFT_def setMintState_def MintInterface_def isLoading_def Let_def)

theorem mintNFT_already_minted_witness:
  "hasAlreadyMinted (readyHook\<lparr> hasAlreadyMinted := True \<rparr>) \<and>
   \<not> missingContext (readyHook\<lparr> hasAlreadyMinted := True \<rparr>) \<and>
   fid (readyHook\<lparr> hasAlreadyMinted := True \<rparr>) = Some 235940 \<and>
   235940 \<le> MAX_SAFE_INTEGER \<and>
   calls (mintNFT (readyHook\<lparr> hasAlreadyMinted := True \<rparr>) succeeding initialState) = [] \<and>
   state (mintNFT (readyHook\<lparr> hasAlreadyMinted := True \<rparr>) succeeding initialState) =
     initialState\<lparr> error := Some ''FID 235940 has already minted a Winter Cheer NFT'' \<rparr> \<and>
   alreadyMintedCard (MintInterface (readyHook\<lparr> hasAlreadyMinted := True \<rparr>) True
     (state (mintNFT (readyHook\<lparr> hasAlreadyMinted := True \<rparr>) succeeding initialState))) \<and>
   mintButton (MintInterface (readyHook\<lparr> hasAlreadyMinted := True \<rparr>) True
     (state (mintNFT (readyHook\<lparr> hasAlreadyMinted := True \<rparr>) succeeding initialState))) = None \<and>
   hasAlreadyMinted (readyHook\<lparr> hasAlreadyMinted := True, isConnected := False \<rparr>) \<and>
   missingContext (readyHook\<lparr> hasAlreadyMinted := True, isConnected := False \<rparr>) \<and>
   calls (mintNFT (readyHook\<lparr> hasAlreadyMinted := True, isConnected := False \<rparr>) succeeding
     initialState) = [] \<and>
   state (mintNFT (readyHook\<lparr> hasAlreadyMinted := True, isConnected := False \<rparr>) succeeding
     initialState) =
     initialState\<lparr> error := Some ''Please connect wallet and ensure Farcaster context is loaded'' \<rparr> \<and>
   alreadyMintedCard (MintInterface (readyHook\<lparr> hasAlreadyMinted := True, isConnected := False \<rparr>)
     True (state (mintNFT (readyHook\<lparr> hasAlreadyMinted := True, isConnected := False \<rparr>)
       succeeding initialState)))"
proof -
  let ?h = "readyHook\<lparr> hasAlreadyMinted := True \<rparr>"
  let ?r = "mintNFT ?h succeeding initialState"
  let ?h' = "readyHook\<lparr> hasAlreadyMinted := True, isConnected := False \<rparr>"
  let ?r' = "mintNFT ?h' succeeding initialState"
  have minted: "hasAlreadyMinted ?h"
    by simp
  have ready: "\<not> missingContext ?h"
    by (simp add: missingContext_def falsyString_def falsyNumber_def readyHook_def)
  have ident: "fid ?h = Some 235940"
    by (simp add: readyHook_def)
  have safe: "(235940::nat) \<le> MAX_SAFE_INTEGER"
    by (simp add: MAX_SAFE_INTEGER_def)
  note run = mintNFT_already_minted [OF minted, of succeeding initialState True]
  have nocalls: "calls ?r = []"
    using run by (elim conjE)
  have same: "state ?r = initialState\<lparr> error := error (state ?r) \<rparr>"
    using run by (elim conjE)
  have card: "alreadyMintedCard (MintInterface ?h True (state ?r))"
    using run by (elim conjE)
  have button: "mintButton (MintInterface ?h True (state ?r)) = None"
    using run by (elim conjE)
  have "\<not> missingContext ?h \<longrightarrow> (\<forall>n \<le> MAX_SAFE_INTEGER. fid ?h = Some n \<longrightarrow>
      error (state ?r) = Some (''FID '' @ decimal n @ '' has already minted a Winter Cheer NFT''))"
    using run by (elim conjE)
  with ready safe ident
  have "error (state ?r) = Some (''FID '' @ decimal 235940 @ '' has already minted a Winter Cheer NFT'')"
    by blast
  then have msg: "error (state ?r) = Some ''FID 235940 has already minted a Winter Cheer NFT''"
    by (simp add: decimal_235940)
  have final: "state ?r =
      initialState\<lparr> error := Some ''FID 235940 has already minted a Winter Cheer NFT'' \<rparr>"
    using same unfolding msg .
  have minted': "hasAlreadyMinted ?h'"
    by simp
  have missing: "missingContext ?h'"
    by (simp add: missingContext_def)
  note run' = mintNFT_already_minted [OF minted', of succeeding initialState True]
  have nocalls': "calls ?r' = []"
    using run' by (elim conjE)
  have same': "state ?r' = initialState\<lparr> error := error (state ?r') \<rparr>"
    using run' by (elim conjE)
  have card': "alreadyMintedCard (MintInterface ?h' True (state ?r'))"
    using run' by (elim conjE)
  have "missingContext ?h' \<longrightarrow> error (state ?r') =
      Some ''Please connect wallet and ensure Farcaster context is loaded''"
    using run' by (elim conjE)
  with missing
  have msg': "error (state ?r') =
      Some ''Please connect wallet and ensure Farcaster context is loaded''"
    by blast
  have final': "state ?r' = initialState\<lparr> error :=
      Some ''Please connect wallet and ensure Farcaster context is loaded'' \<rparr>"
    using same' unfolding msg' .
  show ?thesis
    by (intro conjI minted ready ident safe nocalls final card button minted' missing nocalls'
        final' card')
qed

section \<open>Properties of sending notifications\<close>

lemma POST_rejects:
  assumes "falsyString (notificationId req) \<or> (\<exists>t. title req = Some t \<and> 32 < length t) \<or>
     (\<exists>b. body req = Some b \<and> 128 < length b) \<or>
     (\<exists>u. targetUrl req = Some u \<and> 1024 < length u)"
  shows "\<exists>message. POST sv (Inr req) = (Failure 400 message, [])"
proof -
  consider (nid) "falsyString (notificationId req)"
    | (title) t where "title req = Some t" "32 < length t"
    | (body) b where "body req = Some b" "128 < length b"
    | (url) u where "targetUrl req = Some u" "1024 < length u"
    using assms by blast
  then show ?thesis
  proof cases
    case nid
    then show ?thesis by (simp add: POST_def)
  next
    case title
    then show ?thesis by (simp add: POST_def)
  next
    case body
    then show ?thesis by (simp add: POST_def)
  next
    case url
    then show ?thesis by (simp add: POST_def)
  qed
qed

lemma POST_deliveries:
  assumes "d \<in> set (snd (POST sv json))"
  shows "\<exists>req tokensToSend. json = Inr req \<and> recipients sv req = Inr tokensToSend \<and>
           d \<in> set (concat (map (batchDeliveries req) (batchesFrom 0 tokensToSend)))"
proof (cases json)
  case (Inl e)
  with assms show ?thesis by (simp add: POST_def)
next
  case (Inr req)
  show ?thesis
  proof (cases "recipients sv req")
    case (Inl resp)
    with Inr assms show ?thesis
      by (simp add: POST_def split: if_splits)
  next
    case tokens: (Inr tokensToSend)
    with Inr assms have "d \<in> set (concat (map (batchDeliveries req) (batchesFrom 0 tokensToSend)))"
      by (simp add: POST_def Let_def split: if_splits)
    with Inr tokens show ?thesis by blast
  qed
qed

lemma slice_length: "length (slice xs a (a + n)) \<le> n"
  by (simp add: slice_def)

lemma batchesFrom_sizes: "b \<in> set (batchesFrom i xs) \<Longrightarrow> length b \<le> batchSize"
proof (induction i xs rule: batchesFrom.induct)
  case (1 i xs)
  show ?case
  proof (cases "i < length xs")
    case True
    with "1" show ?thesis
      by (subst (asm) batchesFrom.simps) (auto simp: slice_length)
  next
    case False
    with "1.prems" show ?thesis
      by (subst (asm) batchesFrom.simps) simp
  qed
qed

text \<open>The batches are the recipients, cut into consecutive pieces.\<close>

lemma batchesFrom_concat: "i \<le> length xs \<Longrightarrow> concat (batchesFrom i xs) = drop i xs"
proof (induction i xs rule: batchesFrom.induct)
  case (1 i xs)
  show ?case
  proof (cases "i < length xs")
    case True
    show ?thesis
    proof (cases "i + batchSize \<le> length xs")
      case le: True
      with True "1" have "concat (batchesFrom (i + batchSize) xs) = drop (i + batchSize) xs"
        by simp
      with True show ?thesis
        by (subst batchesFrom.simps)
          (simp add: slice_def add.commute [of i] flip: drop_drop)
    next
      case beyond: False
      then have "batchesFrom (i + batchSize) xs = []"
        by (subst batchesFrom.simps) simp
      with True beyond show ?thesis
        by (subst batchesFrom.simps) (simp add: slice_def)
    qed
  next
    case False
    with "1.prems" show ?thesis
      by (subst batchesFrom.simps) simp
  qed
qed

lemma groupTotal_addToGroup: "groupTotal (addToGroup urlGroups item) = Suc (groupTotal urlGroups)"
  by (induction urlGroups) (auto simp: addToGroup_def groupTotal_def)

lemma groupTotal_foldl:
  "groupTotal (foldl addToGroup urlGroups batch) = groupTotal urlGroups + length batch"
  by (induction batch arbitrary: urlGroups) (simp_all add: groupTotal_addToGroup)

lemma groupTotal_member: "(url, items) \<in> set urlGroups \<Longrightarrow> length items \<le> groupTotal urlGroups"
  by (induction urlGroups) (auto simp: groupTotal_def)

lemma groupByUrl_sizes:
  assumes "(url, items) \<in> set (groupByUrl batch)"
  shows "length items \<le> length batch"
proof -
  have "length items \<le> groupTotal (groupByUrl batch)"
    using assms by (rule groupTotal_member)
  also have "\<dots> = length batch"
    by (simp add: groupByUrl_def groupTotal_foldl) (simp add: groupTotal_def)
  finally show ?thesis .
qed

lemma batchDeliveries_sizes:
  "d \<in> set (batchDeliveries req batch) \<Longrightarrow> length (payloadTokens d) \<le> length batch"
  by (auto simp: batchDeliveries_def dest: groupByUrl_sizes)

text \<open>
  C9. \<open>POST\<close> rejects with a validation error (status 400), sending nothing to any relay,
  every request that lacks the \<open>notificationId\<close>, or whose title is longer than 32
  characters, or whose body is longer than 128 characters, or whose \<open>targetUrl\<close> is longer
  than 1024 characters; and every delivery it issues to a relay, for whatever request,
  carries at most 100 tokens.
\<close>

theorem POST_validation_and_batching:
  "((falsyString (notificationId req) \<or> (\<exists>t. title req = Some t \<and> 32 < length t) \<or>
     (\<exists>b. body req = Some b \<and> 128 < length b) \<or>
     (\<exists>u. targetUrl req = Some u \<and> 1024 < length u)) \<longrightarrow>
      (\<exists>message. POST sv (Inr req) = (Failure 400 message, []))) \<and>
   (\<forall>d \<in> set (snd (POST sv json)). length (payloadTokens d) \<le> 100)"
proof (intro conjI impI ballI)
  assume "falsyString (notificationId req) \<or> (\<exists>t. title req = Some t \<and> 32 < length t) \<or>
     (\<exists>b. body req = Some b \<and> 128 < length b) \<or>
     (\<exists>u. targetUrl req = Some u \<and> 1024 < length u)"
  then show "\<exists>message. POST sv (Inr req) = (Failure 400 message, [])"
    by (rule POST_rejects)
next
  fix d assume "d \<in> set (snd (POST sv json))"
  then obtain r tokensToSend batch where
    "batch \<in> set (batchesFrom 0 tokensToSend)" "d \<in> set (batchDeliveries r batch)"
    using POST_deliveries by fastforce
  then have "length (payloadTokens d) \<le> length batch" "length batch \<le> batchSize"
    by (auto dest: batchDeliveries_sizes batchesFrom_sizes)
  then show "length (payloadTokens d) \<le> 100"
    by (simp add: batchSize_def)
qed

lemmas post_eval =
  POST_def recipients_def batchesFrom.simps slice_def batchSize_def batchDeliveries_def
  groupByUrl_def addToGroup_def batchResult_def falsyString_def exampleServices_def
  exampleRequest_def Let_def

lemma POST_example:
  "POST exampleServices (Inr exampleRequest) =
     (Summary 3 0 3 [],
      [\<lparr> relayUrl = ''https://relay-a'', payloadNotificationId = ''winter-1'',
          payloadTitle = ''Winter Cheer'', payloadBody = ''Minting is open'',
          payloadTargetUrl = ''https://example.org'', payloadTokens = [''t1'', ''t3''] \<rparr>,
       \<lparr> relayUrl = ''https://relay-b'', payloadNotificationId = ''winter-1'',
          payloadTitle = ''Winter Cheer'', payloadBody = ''Minting is open'',
          payloadTargetUrl = ''https://example.org'', payloadTokens = [''t2''] \<rparr>])"
  by (simp add: post_eval)

theorem POST_validation_and_batching_witness:
  "falsyString (notificationId (exampleRequest\<lparr> notificationId := None \<rparr>)) \<and>
   (\<exists>message. POST exampleServices (Inr (exampleRequest\<lparr> notificationId := None \<rparr>)) =
      (Failure 400 message, [])) \<and>
   snd (POST exampleServices (Inr exampleRequest)) \<noteq> [] \<and>
   length (payloadTokens (hd (snd (POST exampleServices (Inr exampleRequest))))) \<le> 100"
proof -
  note claim = POST_validation_and_batching
    [of "exampleRequest\<lparr> notificationId := None \<rparr>" exampleServices "Inr exampleRequest"]
  have missing: "falsyString (notificationId (exampleRequest\<lparr> notificationId := None \<rparr>))"
    by (simp add: falsyString_def)
  with claim have rejected:
    "\<exists>message. POST exampleServices (Inr (exampleRequest\<lparr> notificationId := None \<rparr>)) =
       (Failure 400 message, [])"
    by blast
  have sent: "snd (POST exampleServices (Inr exampleRequest)) \<noteq> []"
    by (simp add: POST_example)
  then have "hd (snd (POST exampleServices (Inr exampleRequest))) \<in>
      set (snd (POST exampleServices (Inr exampleRequest)))"
    by simp
  with claim have "length (payloadTokens (hd (snd (POST exampleServices (Inr exampleRequest))))) \<le> 100"
    by blast
  with missing rejected sent show ?thesis
    by blast
qed

section \<open>Rounding in the normal range\<close>

lemma ilog2_ge:
  assumes "0 < x" and "pow2 k \<le> x"
  shows "k \<le> ilog2 x"
proof -
  have "pow2 k < pow2 (ilog2 x + 1)"
    using assms(2) ilog2_bounds(2) [OF assms(1)] by linarith
  then show ?thesis
    by (simp add: pow2_less_iff)
qed

lemma ilog2_less:
  assumes "0 < x" and "x < pow2 k"
  shows "ilog2 x < k"
proof -
  have "pow2 (ilog2 x) < pow2 k"
    using assms(2) ilog2_bounds(1) [OF assms(1)] by linarith
  then show ?thesis
    by (simp add: pow2_less_iff)
qed

lemma roundHalfEven_lower: "\<lfloor>q\<rfloor> \<le> roundHalfEven q"
  by (simp add: roundHalfEven_def Let_def)

lemma roundHalfEven_upper: "roundHalfEven q \<le> \<lceil>q\<rceil>"
proof -
  have "\<lfloor>q\<rfloor> + 1 \<le> \<lceil>q\<rceil>" if "0 < q - of_int \<lfloor>q\<rfloor>"
    using that by linarith
  moreover have "\<lfloor>q\<rfloor> \<le> \<lceil>q\<rceil>"
    by linarith
  ultimately show ?thesis
    by (simp add: roundHalfEven_def Let_def)
qed

lemma roundHalfEven_ge:
  assumes "of_int n \<le> q"
  shows "n \<le> roundHalfEven q"
proof -
  have "n \<le> \<lfloor>q\<rfloor>"
    using assms by (simp add: le_floor_iff)
  with roundHalfEven_lower [of q] show ?thesis
    by linarith
qed

lemma roundHalfEven_le:
  assumes "q \<le> of_int n"
  shows "roundHalfEven q \<le> n"
proof -
  have "\<lceil>q\<rceil> \<le> n"
    using assms by (simp add: ceiling_le_iff)
  with roundHalfEven_upper [of q] show ?thesis
    by linarith
qed

lemma pow2_numeral [simp]:
  "pow2 (- 1022) = 1 / 2 ^ 1022" "pow2 (- 52) = 1 / 2 ^ 52" "pow2 52 = 2 ^ 52" "pow2 53 = 2 ^ 53"
  by (simp_all add: pow2_def)

text \<open>In the normal range the rounding error is at most \<open>2\<^sup>-\<^sup>5\<^sup>3\<close> of the number.\<close>

lemma rnd64_rel:
  assumes "pow2 (- 1022) \<le> \<bar>x\<bar>"
  shows "\<bar>rnd64 x - x\<bar> \<le> \<bar>x\<bar> / 2 ^ 53"
proof -
  have pos: "0 < \<bar>x\<bar>"
    using assms pow2_pos [of "- 1022"] by linarith
  then have x: "x \<noteq> 0"
    by simp
  have normal: "- 1022 \<le> ilog2 \<bar>x\<bar>"
    by (rule ilog2_ge [OF pos assms])
  then have e: "max (- 1074) (ilog2 \<bar>x\<bar> - 52) = ilog2 \<bar>x\<bar> - 52"
    by simp
  have "pow2 (ilog2 \<bar>x\<bar> - 52) = pow2 (ilog2 \<bar>x\<bar>) * pow2 (- 52)"
    using pow2_add [of "ilog2 \<bar>x\<bar>" "- 52"] by simp
  also have "\<dots> \<le> \<bar>x\<bar> * pow2 (- 52)"
    using ilog2_bounds(1) [OF pos] pow2_pos [of "- 52"] by (intro mult_right_mono) simp_all
  finally have "pow2 (ilog2 \<bar>x\<bar> - 52) / 2 \<le> \<bar>x\<bar> / 2 ^ 53"
    by simp
  with rnd64_error [OF x] show ?thesis
    unfolding e by linarith
qed

text \<open>
  In the normal range the double of \<open>x\<close> is \<open>M * 2\<^sup>e\<close>, where \<open>e\<close> is the exponent of \<open>x\<close>
  less 52 and \<open>M\<close> has 53 bits, or is \<open>2\<^sup>5\<^sup>3\<close> when \<open>x\<close> is rounded up to the next power
  of two.
\<close>

lemma rnd64_grid:
  assumes "pow2 (- 1022) \<le> x"
  shows "\<exists>M. rnd64 x = of_int M * pow2 (ilog2 x - 52) \<and> 2 ^ 52 \<le> M \<and> M \<le> 2 ^ 53"
proof -
  have pos: "0 < x"
    using assms pow2_pos [of "- 1022"] by linarith
  have normal: "- 1022 \<le> ilog2 x"
    by (rule ilog2_ge [OF pos assms])
  define e where "e = ilog2 x - 52"
  define q where "q = x / pow2 e"
  have emax: "max (- 1074) (ilog2 x - 52) = e"
    using normal by (simp add: e_def)
  have r: "rnd64 x = of_int (roundHalfEven q) * pow2 e"
    using pos by (simp add: rnd64_def Let_def q_def) (simp only: emax)
  have p: "0 < pow2 e"
    by (rule pow2_pos)
  have "pow2 52 * pow2 e = pow2 (52 + e)"
    by (simp only: pow2_add)
  also have "\<dots> = pow2 (ilog2 x)"
    by (simp add: e_def)
  also have "\<dots> \<le> x"
    by (rule ilog2_bounds(1) [OF pos])
  finally have "pow2 52 \<le> q"
    using p by (simp add: q_def pos_le_divide_eq)
  then have "of_int (2 ^ 52) \<le> q"
    by simp
  then have lo: "2 ^ 52 \<le> roundHalfEven q"
    by (rule roundHalfEven_ge)
  have e53: "ilog2 x + 1 = 53 + e"
    by (simp add: e_def)
  have "x < pow2 (ilog2 x + 1)"
    by (rule ilog2_bounds(2) [OF pos])
  also have "\<dots> = pow2 (53 + e)"
    by (simp only: e53)
  also have "\<dots> = pow2 53 * pow2 e"
    by (simp only: pow2_add)
  finally have "q < pow2 53"
    using p by (simp add: q_def pos_divide_less_eq)
  then have "q \<le> of_int (2 ^ 53)"
    by simp
  then have hi: "roundHalfEven q \<le> 2 ^ 53"
    by (rule roundHalfEven_le)
  from r lo hi show ?thesis
    unfolding e_def by blast
qed

lemma roundHalfEven_minus: "roundHalfEven (- q) = - roundHalfEven q"
proof (cases "of_int \<lfloor>q\<rfloor> = q")
  case True
  then obtain k where "q = of_int k"
    by metis
  then show ?thesis
    using roundHalfEven_of_int [of "- k"] roundHalfEven_of_int [of k] by simp
next
  case False
  define f where "f = \<lfloor>q\<rfloor>"
  define r where "r = q - of_int f"
  have r: "0 < r" "r < 1"
    using False unfolding r_def f_def by linarith+
  have fl: "\<lfloor>- q\<rfloor> = - f - 1"
    using r unfolding r_def by (intro floor_unique) simp_all
  have r': "- q - of_int (- f - 1) = 1 - r"
    by (simp add: r_def)
  have q: "roundHalfEven q =
      (if r < 1 / 2 then f else if 1 / 2 < r then f + 1 else if even f then f else f + 1)"
    by (simp add: roundHalfEven_def Let_def f_def r_def)
  have "roundHalfEven (- q) =
      (if 1 - r < 1 / 2 then - f - 1 else if 1 / 2 < 1 - r then - f
       else if even (- f - 1) then - f - 1 else - f)"
    unfolding roundHalfEven_def Let_def fl r' by simp
  with q show ?thesis
    by auto
qed

lemma rnd64_minus: "rnd64 (- x) = - rnd64 x"
  by (simp add: rnd64_def Let_def roundHalfEven_minus)

lemma fin_Num:
  assumes "\<bar>rnd64 x\<bar> < 2 ^ 64"
  shows "fin x = Num (rnd64 x)"
  using assms by (simp add: fin_eval)

lemma pow2_le_iff: "pow2 a \<le> pow2 b \<longleftrightarrow> a \<le> b"
  by (simp add: pow2_powr)

lemma rnd64_normal:
  assumes "pow2 (- 1022) \<le> x"
  shows "rnd64 x = of_int (roundHalfEven (x / pow2 (ilog2 x - 52))) * pow2 (ilog2 x - 52)"
proof -
  have pos: "0 < x"
    using assms pow2_pos [of "- 1022"] by linarith
  have normal: "- 1022 \<le> ilog2 x"
    by (rule ilog2_ge [OF pos assms])
  then have emax: "max (- 1074) (ilog2 x - 52) = ilog2 x - 52"
    by simp
  show ?thesis
    using pos by (simp add: rnd64_def Let_def) (simp only: emax)
qed

lemma rnd64_between:
  assumes "pow2 (- 1022) \<le> x"
  shows "pow2 (ilog2 x) \<le> rnd64 x" and "rnd64 x \<le> pow2 (ilog2 x + 1)"
proof -
  from rnd64_grid [OF assms] obtain M
    where r: "rnd64 x = of_int M * pow2 (ilog2 x - 52)" and M: "2 ^ 52 \<le> M" "M \<le> 2 ^ 53"
    by blast
  have p: "0 < pow2 (ilog2 x - 52)"
    by (rule pow2_pos)
  have "pow2 (ilog2 x) = pow2 (52 + (ilog2 x - 52))"
    by simp
  also have "\<dots> = pow2 52 * pow2 (ilog2 x - 52)"
    by (simp only: pow2_add)
  also have "\<dots> \<le> of_int M * pow2 (ilog2 x - 52)"
  proof -
    have "(of_int (2 ^ 52) :: real) \<le> of_int M"
      using M(1) by (simp only: of_int_le_iff)
    then show ?thesis
      using p by (intro mult_right_mono) simp_all
  qed
  finally show "pow2 (ilog2 x) \<le> rnd64 x"
    by (simp only: r)
  have e: "ilog2 x + 1 = 53 + (ilog2 x - 52)"
    by simp
  have "of_int M * pow2 (ilog2 x - 52) \<le> pow2 53 * pow2 (ilog2 x - 52)"
  proof -
    have "(of_int M :: real) \<le> of_int (2 ^ 53)"
      using M(2) by (simp only: of_int_le_iff)
    then show ?thesis
      using p by (intro mult_right_mono) simp_all
  qed
  also have "\<dots> = pow2 (53 + (ilog2 x - 52))"
    by (simp only: pow2_add)
  also have "\<dots> = pow2 (ilog2 x + 1)"
    by (simp only: e)
  finally show "rnd64 x \<le> pow2 (ilog2 x + 1)"
    by (simp only: r)
qed

text \<open>The double of a number below 1 is at most the largest double below 1.\<close>

lemma rnd64_below_one:
  assumes "pow2 (- 1022) \<le> t" and "t \<le> 1 - 1 / 2 ^ 53"
  shows "rnd64 t \<le> 1 - 1 / 2 ^ 53"
proof -
  have pos: "0 < t"
    using assms(1) pow2_pos [of "- 1022"] by linarith
  show ?thesis
  proof (cases "t < 1 / 2")
    case True
    then have "t < pow2 (- 1)"
      by (simp add: pow2_def)
    then have "ilog2 t + 1 \<le> - 1"
      using ilog2_less [OF pos] by fastforce
    then have "pow2 (ilog2 t + 1) \<le> pow2 (- 1)"
      by (simp only: pow2_le_iff)
    with rnd64_between(2) [OF assms(1)] have "rnd64 t \<le> 1 / 2"
      by (simp add: pow2_def)
    then show ?thesis
      by (rule order_trans) simp
  next
    case False
    then have "pow2 (- 1) \<le> t"
      by (simp add: pow2_def)
    then have lo: "- 1 \<le> ilog2 t"
      by (rule ilog2_ge [OF pos])
    have "t < pow2 0"
      using assms(2) by (simp add: pow2_def)
    then have "ilog2 t < 0"
      by (rule ilog2_less [OF pos])
    with lo have i: "ilog2 t = - 1"
      by simp
    have e: "pow2 (ilog2 t - 52) = 1 / 2 ^ 53"
      by (simp add: i pow2_def)
    have "t * 2 ^ 53 \<le> 2 ^ 53 - 1"
      using assms(2) by (simp add: field_simps)
    then have "t / (1 / 2 ^ 53) \<le> of_int (2 ^ 53 - 1)"
      by simp
    then have "roundHalfEven (t / (1 / 2 ^ 53)) \<le> 2 ^ 53 - 1"
      by (rule roundHalfEven_le)
    then have "(of_int (roundHalfEven (t / (1 / 2 ^ 53))) :: real) \<le> of_int (2 ^ 53 - 1)"
      by (simp only: of_int_le_iff)
    then have "of_int (roundHalfEven (t / (1 / 2 ^ 53))) * (1 / 2 ^ 53) \<le>
        (of_int (2 ^ 53 - 1) :: real) * (1 / 2 ^ 53)"
      by (intro mult_right_mono) simp_all
    then show ?thesis
      unfolding rnd64_normal [OF assms(1)] e by simp
  qed
qed

lemma frac_dyadic:
  fixes N :: int
  defines "t \<equiv> (of_int N :: real) / 2 ^ 53 - of_int \<lfloor>(of_int N :: real) / 2 ^ 53\<rfloor>"
  shows "t \<le> 1 - 1 / 2 ^ 53" and "t = 0 \<or> 1 / 2 ^ 53 \<le> t"
proof -
  have fl: "\<lfloor>(of_int N :: real) / 2 ^ 53\<rfloor> = N div 2 ^ 53"
    using floor_divide_of_int_eq [of N "2 ^ 53", where ?'a = real] by simp
  have "(of_int N :: real) = of_int (N div 2 ^ 53 * 2 ^ 53 + N mod 2 ^ 53)"
    by simp
  also have "\<dots> = of_int (N div 2 ^ 53) * 2 ^ 53 + of_int (N mod 2 ^ 53)"
    by (simp only: of_int_add of_int_mult of_int_power of_int_numeral)
  finally have t: "t = of_int (N mod 2 ^ 53) / 2 ^ 53"
    unfolding t_def fl by (simp add: field_simps)
  have "N mod 2 ^ 53 \<le> 2 ^ 53 - 1"
    using pos_mod_bound [of "2 ^ 53" N] by simp
  then have "(of_int (N mod 2 ^ 53) :: real) \<le> of_int (2 ^ 53 - 1)"
    by (simp only: of_int_le_iff)
  then show "t \<le> 1 - 1 / 2 ^ 53"
    unfolding t by (simp add: field_simps)
  have "0 \<le> N mod 2 ^ 53"
    by simp
  then consider "N mod 2 ^ 53 = 0" | "1 \<le> N mod 2 ^ 53"
    by linarith
  then show "t = 0 \<or> 1 / 2 ^ 53 \<le> t"
  proof cases
    case 1
    then show ?thesis
      unfolding t by simp
  next
    case 2
    then have "(of_int 1 :: real) \<le> of_int (N mod 2 ^ 53)"
      by (simp only: of_int_le_iff)
    then show ?thesis
      unfolding t by (simp add: field_simps)
  qed
qed

text \<open>
  The fractional part \<open>x - \<lfloor>x\<rfloor>\<close> of a double \<open>x\<close> that is not too close to zero is at most
  the largest double below 1, and it is zero or at least \<open>2\<^sup>-\<^sup>5\<^sup>3\<close>.
\<close>

lemma frac_of_double:
  assumes z: "1 / 2 ^ 47 \<le> \<bar>z\<bar>" "\<bar>z\<bar> < 2 ^ 17"
  shows "rnd64 z - of_int \<lfloor>rnd64 z\<rfloor> \<le> 1 - 1 / 2 ^ 53"
    and "rnd64 z - of_int \<lfloor>rnd64 z\<rfloor> = 0 \<or> 1 / 2 ^ 53 \<le> rnd64 z - of_int \<lfloor>rnd64 z\<rfloor>"
proof -
  define w where "w = rnd64 \<bar>z\<bar>"
  define i where "i = ilog2 \<bar>z\<bar>"
  have "(0 :: real) < 1 / 2 ^ 47"
    by simp
  with z(1) have pos: "0 < \<bar>z\<bar>"
    by linarith
  have "pow2 (- 47) \<le> \<bar>z\<bar>"
    using z(1) by (simp add: pow2_def)
  then have ilo: "- 47 \<le> i"
    unfolding i_def by (rule ilog2_ge [OF pos])
  have normal: "pow2 (- 1022) \<le> \<bar>z\<bar>"
  proof -
    have "pow2 (- 1022) \<le> pow2 (- 47)"
      by (simp only: pow2_le_iff)
    with \<open>pow2 (- 47) \<le> \<bar>z\<bar>\<close> show ?thesis
      by linarith
  qed
  have xv: "rnd64 z = (if 0 < z then w else - w)"
  proof (cases "0 < z")
    case True
    then show ?thesis
      by (simp add: w_def)
  next
    case False
    with pos have "\<bar>z\<bar> = - z"
      by simp
    with False show ?thesis
      by (simp add: w_def rnd64_minus)
  qed
  have "rnd64 z - of_int \<lfloor>rnd64 z\<rfloor> \<le> 1 - 1 / 2 ^ 53 \<and>
      (rnd64 z - of_int \<lfloor>rnd64 z\<rfloor> = 0 \<or> 1 / 2 ^ 53 \<le> rnd64 z - of_int \<lfloor>rnd64 z\<rfloor>)"
  proof (cases "- 1 \<le> i")
    case True
    from rnd64_grid [OF normal] obtain M where M: "w = of_int M * pow2 (i - 52)"
      unfolding w_def i_def by blast
    have "pow2 (i - 52) = pow2 ((i + 1) + (- 53))"
      by simp
    also have "\<dots> = pow2 (i + 1) * pow2 (- 53)"
      by (simp only: pow2_add)
    also have "\<dots> = 2 ^ nat (i + 1) / 2 ^ 53"
      using True by (simp add: pow2_def)
    finally have "w = of_int (M * 2 ^ nat (i + 1)) / 2 ^ 53"
      unfolding M by simp
    then have "\<exists>N. rnd64 z = of_int N / 2 ^ 53"
      unfolding xv by (metis minus_divide_left of_int_minus)
    then obtain N where N: "rnd64 z = of_int N / 2 ^ 53" ..
    show ?thesis
      unfolding N using frac_dyadic [of N] by (intro conjI)
  next
    case False
    then have "i + 1 \<le> - 1"
      by simp
    then have "pow2 (i + 1) \<le> pow2 (- 1)"
      by (simp only: pow2_le_iff)
    with rnd64_between(2) [OF normal] have whi: "w \<le> 1 / 2"
      unfolding w_def i_def by (simp add: pow2_def)
    have "pow2 (- 47) \<le> pow2 i"
      using ilo by (simp only: pow2_le_iff)
    with rnd64_between(1) [OF normal] have wlo: "1 / 2 ^ 47 \<le> w"
      unfolding w_def i_def by (simp add: pow2_def)
    have small: "(1 :: real) / 2 ^ 53 \<le> 1 / 2 ^ 47"
      by simp
    show ?thesis
    proof (cases "0 < z")
      case True
      have "\<lfloor>w\<rfloor> = 0"
        using whi wlo small by (intro floor_unique) simp_all
      with True whi wlo small show ?thesis
        unfolding xv by simp
    next
      case False
      have "\<lfloor>- w\<rfloor> = - 1"
        using whi wlo small by (intro floor_unique) simp_all
      with False whi wlo small show ?thesis
        unfolding xv by simp
    qed
  qed
  then show "rnd64 z - of_int \<lfloor>rnd64 z\<rfloor> \<le> 1 - 1 / 2 ^ 53"
    and "rnd64 z - of_int \<lfloor>rnd64 z\<rfloor> = 0 \<or> 1 / 2 ^ 53 \<le> rnd64 z - of_int \<lfloor>rnd64 z\<rfloor>"
    by simp_all
qed

lemma fin_zero: "fin 0 = Num 0"
  using fin_Num [of 0] by (simp add: rnd64_def)

lemma fin_normal:
  assumes "pow2 (- 1022) \<le> \<bar>x\<bar>" and "\<bar>x\<bar> < 2 ^ 63"
  shows "fin x = Num (rnd64 x)" and "\<bar>rnd64 x - x\<bar> \<le> \<bar>x\<bar> / 2 ^ 53"
proof -
  show rel: "\<bar>rnd64 x - x\<bar> \<le> \<bar>x\<bar> / 2 ^ 53"
    by (rule rnd64_rel [OF assms(1)])
  have "\<bar>x\<bar> / 2 ^ 53 \<le> \<bar>x\<bar>"
    by (simp add: field_simps)
  moreover have "(2 :: real) ^ 64 = 2 * 2 ^ 63"
    by simp
  ultimately have "\<bar>rnd64 x\<bar> < 2 ^ 64"
    using rel assms(2) by linarith
  then show "fin x = Num (rnd64 x)"
    by (rule fin_Num)
qed

lemma pow2_tiny: "pow2 (- 1022) \<le> 1 / 2 ^ 54"
proof -
  have "pow2 (- 1022) \<le> pow2 (- 54)"
    by (simp only: pow2_le_iff)
  then show ?thesis
    by (simp add: pow2_def)
qed

section \<open>Doubles and the multiples of \<open>\<pi>\<close>\<close>

text \<open>
  The partial sums of the series of the arc tangent enclose it, and Machin's formula
  turns them into an enclosure of \<open>\<pi>\<close>.
\<close>

lemma arctan_partial_sums:
  fixes x :: real
  assumes "0 \<le> x" and "x \<le> 1"
  shows "(\<Sum>i<2 * n. (- 1) ^ i * (1 / real (i * 2 + 1) * x ^ (i * 2 + 1))) \<le> arctan x"
    and "arctan x \<le> (\<Sum>i<2 * n + 1. (- 1) ^ i * (1 / real (i * 2 + 1) * x ^ (i * 2 + 1)))"
proof -
  let ?a = "\<lambda>n. 1 / real (n * 2 + 1) * x ^ (n * 2 + 1)"
  have abs: "\<bar>x\<bar> \<le> 1"
    using assms by simp
  have zero: "?a \<longlonglongrightarrow> 0"
    by (rule zeroseq_arctan_series [OF abs])
  have pos: "0 \<le> ?a n" for n
    using assms by simp
  have mono: "?a (Suc n) \<le> ?a n" for n
  proof (rule mult_mono)
    show "1 / real (Suc n * 2 + 1) \<le> 1 / real (n * 2 + 1)"
      by (rule frac_le) simp_all
    show "x ^ (Suc n * 2 + 1) \<le> x ^ (n * 2 + 1)"
      using assms by (intro power_decreasing) simp_all
    show "0 \<le> 1 / real (n * 2 + 1)"
      by simp
    show "0 \<le> x ^ (Suc n * 2 + 1)"
      using assms by simp
  qed
  have series: "arctan x = (\<Sum>k. (- 1) ^ k * ?a k)"
    by (rule arctan_series [OF abs])
  show "(\<Sum>i<2 * n. (- 1) ^ i * ?a i) \<le> arctan x"
    unfolding series by (rule summable_Leibniz'(2) [OF zero pos mono])
  show "arctan x \<le> (\<Sum>i<2 * n + 1. (- 1) ^ i * ?a i)"
    unfolding series by (rule summable_Leibniz'(4) [OF zero pos mono])
qed

lemma arctan_5_bounds:
  "(\<Sum>i<28. (- 1) ^ i * (1 / real (i * 2 + 1) * (1 / 5) ^ (i * 2 + 1))) \<le> arctan (1 / 5)"
  "arctan (1 / 5) \<le> (\<Sum>i<29. (- 1) ^ i * (1 / real (i * 2 + 1) * (1 / 5) ^ (i * 2 + 1)))"
  using arctan_partial_sums [of "1 / 5" 14] by simp_all

lemma arctan_239_bounds:
  "(\<Sum>i<10. (- 1) ^ i * (1 / real (i * 2 + 1) * (1 / 239) ^ (i * 2 + 1))) \<le> arctan (1 / 239)"
  "arctan (1 / 239) \<le> (\<Sum>i<11. (- 1) ^ i * (1 / real (i * 2 + 1) * (1 / 239) ^ (i * 2 + 1)))"
  using arctan_partial_sums [of "1 / 239" 5] by simp_all

lemma pi_bounds: "piLo \<le> pi" "pi \<le> piHi"
proof -
  have pi: "pi = 16 * arctan (1 / 5) - 4 * arctan (1 / 239)"
    using machin by simp
  have "piLo \<le> 16 * (\<Sum>i<28. (- 1) ^ i * (1 / real (i * 2 + 1) * (1 / 5) ^ (i * 2 + 1))) -
      4 * (\<Sum>i<11. (- 1) ^ i * (1 / real (i * 2 + 1) * (1 / 239) ^ (i * 2 + 1)))"
    by (simp add: piLo_def lessThan_nat_numeral lessThan_Suc power_divide)
  also have "\<dots> \<le> pi"
    unfolding pi using arctan_5_bounds(1) arctan_239_bounds(2) by linarith
  finally show "piLo \<le> pi" .
  have "pi \<le> 16 * (\<Sum>i<29. (- 1) ^ i * (1 / real (i * 2 + 1) * (1 / 5) ^ (i * 2 + 1))) -
      4 * (\<Sum>i<10. (- 1) ^ i * (1 / real (i * 2 + 1) * (1 / 239) ^ (i * 2 + 1)))"
    unfolding pi using arctan_5_bounds(2) arctan_239_bounds(1) by linarith
  also have "\<dots> \<le> piHi"
    by (simp add: piHi_def lessThan_nat_numeral lessThan_Suc power_divide)
  finally show "pi \<le> piHi" .
qed

text \<open>
  Best approximation: if \<open>p / q\<close> and \<open>p' / q'\<close> are neighbours, \<open>p * q' - p' * q = \<plusminus>1\<close>, and
  \<open>\<beta> / u\<close> lies strictly between them, then no \<open>m / j\<close> with \<open>0 < j < q'\<close> has \<open>j * \<beta>\<close>
  nearer to \<open>m * u\<close> than \<open>q * \<beta>\<close> is to \<open>p * u\<close>.
\<close>

lemma abs_add_same_sign:
  fixes a b :: real
  assumes "0 \<le> a * b"
  shows "\<bar>a + b\<bar> = \<bar>a\<bar> + \<bar>b\<bar>"
proof -
  consider "0 \<le> a" "0 \<le> b" | "a \<le> 0" "b \<le> 0" | "0 < a" "b < 0" | "a < 0" "0 < b"
    by linarith
  then show ?thesis
  proof cases
    case 3
    then have "a * b < 0" by (simp add: mult_pos_neg)
    with assms show ?thesis by simp
  next
    case 4
    then have "a * b < 0" by (simp add: mult_neg_pos)
    with assms show ?thesis by simp
  qed simp_all
qed

lemma farey_best:
  fixes p q p' q' j m :: int and \<beta> u :: real
  assumes det: "p * q' - p' * q = 1 \<or> p * q' - p' * q = - 1"
    and opp: "(of_int q * \<beta> - of_int p * u) * (of_int q' * \<beta> - of_int p' * u) < 0"
    and q: "0 < q" and j: "0 < j" "j < q'"
  shows "\<bar>of_int q * \<beta> - of_int p * u\<bar> \<le> \<bar>of_int j * \<beta> - of_int m * u\<bar>"
proof -
  define d where "d = p * q' - p' * q"
  define x where "x = d * (m * q' - j * p')"
  define y where "y = d * (j * p - m * q)"
  define A where "A = of_int q * \<beta> - of_int p * u"
  define B where "B = of_int q' * \<beta> - of_int p' * u"
  have dd: "d * d = 1"
    using det by (auto simp: d_def)
  have "x * q + y * q' = d * d * j"
    by (simp add: x_def y_def d_def algebra_simps)
  then have jj: "j = x * q + y * q'"
    by (simp add: dd)
  have "x * p + y * p' = d * d * m"
    by (simp add: x_def y_def d_def algebra_simps)
  then have mm: "m = x * p + y * p'"
    by (simp add: dd)
  have sum: "of_int j * \<beta> - of_int m * u = of_int x * A + of_int y * B"
    by (simp add: jj mm A_def B_def algebra_simps)
  have q': "0 < q'"
    using j by simp
  have AB: "A * B < 0"
    using opp by (simp add: A_def B_def)
  have x0: "x \<noteq> 0"
  proof
    assume "x = 0"
    then have eq: "j = y * q'"
      using jj by simp
    have "0 < y"
      using j(1) q' unfolding eq by (simp add: zero_less_mult_iff)
    then have "q' \<le> y * q'"
      using q' by (simp add: mult_le_cancel_right1)
    with j(2) eq show False
      by simp
  qed
  have xy: "x * y \<le> 0"
  proof (rule ccontr)
    assume "\<not> x * y \<le> 0"
    then have "0 < x * y" by simp
    then consider "0 < x" "0 < y" | "x < 0" "y < 0"
      by (auto simp: zero_less_mult_iff)
    then show False
    proof cases
      case 1
      then have "q \<le> x * q" "q' \<le> y * q'"
        using q q' by (simp_all add: mult_le_cancel_right1)
      with jj j(2) q show False by linarith
    next
      case 2
      then have "x * q < 0" "y * q' < 0"
        using q q' by (simp_all add: mult_neg_pos)
      with jj j(1) show False by linarith
    qed
  qed
  have "0 \<le> (of_int (x * y) * (A * B) :: real)"
  proof -
    have "(of_int (x * y) :: real) \<le> 0"
      using xy by (simp only: of_int_le_0_iff)
    with AB show ?thesis
      by (simp add: mult_nonpos_nonpos)
  qed
  then have "0 \<le> (of_int x * A) * (of_int y * B)"
    by (simp add: algebra_simps)
  then have "\<bar>of_int x * A + of_int y * B\<bar> = \<bar>of_int x * A\<bar> + \<bar>of_int y * B\<bar>"
    by (rule abs_add_same_sign)
  moreover have "\<bar>A\<bar> \<le> \<bar>of_int x * A\<bar>"
  proof -
    have "1 \<le> \<bar>x\<bar>"
      using x0 by simp
    then have "(1::real) \<le> \<bar>of_int x\<bar>"
      by (metis of_int_1_le_iff of_int_abs)
    then have "1 * \<bar>A\<bar> \<le> \<bar>of_int x\<bar> * \<bar>A\<bar>"
      by (intro mult_right_mono) simp_all
    then show ?thesis
      by (simp add: abs_mult)
  qed
  ultimately have "\<bar>A\<bar> \<le> \<bar>of_int x * A + of_int y * B\<bar>"
    by simp
  then show ?thesis
    by (simp add: sum A_def)
qed

text \<open>
  A double with a certified exponent is at least \<open>2\<^sup>-\<^sup>6\<^sup>0\<close> away from every multiple of
  \<open>\<pi>\<close>, and every exponent from 6 to 56 is certified.
\<close>

lemma cert_distance:
  assumes ok: "cert_ok i (p, q, p', q')" and M: "2 ^ 52 \<le> M" "M \<le> 2 ^ 53"
  shows "1 / 2 ^ 60 \<le> \<bar>of_int M * pow2 (i - 52) - of_int j * pi\<bar>"
proof -
  define u where "u = pow2 (i - 52)"
  have u: "0 < u"
    by (simp add: u_def pow2_pos)
  from ok have q: "0 < q" and q': "0 < q'"
    and det: "p * q' - p' * q = 1 \<or> p * q' - p' * q = - 1"
    and low: "1 / 2 ^ 60 \<le> 2 ^ 52 * u"
    and high: "2 ^ 53 * u + 1 \<le> of_int q' * piLo"
    and sides: "of_int q * piHi + 1 / 2 ^ 60 \<le> of_int p * u \<and> of_int p' * u < of_int q' * piLo \<or>
      of_int p * u + 1 / 2 ^ 60 \<le> of_int q * piLo \<and> of_int q' * piHi < of_int p' * u"
    by (simp_all add: cert_ok_def u_def)
  have Mlo: "2 ^ 52 * u \<le> of_int M * u"
  proof -
    have "(of_int (2 ^ 52) :: real) \<le> of_int M"
      using M(1) by (simp only: of_int_le_iff)
    then show ?thesis
      using u by (simp add: mult_right_mono)
  qed
  have Mhi: "of_int M * u \<le> 2 ^ 53 * u"
  proof -
    have "(of_int M :: real) \<le> of_int (2 ^ 53)"
      using M(2) by (simp only: of_int_le_iff)
    then show ?thesis
      using u by (simp add: mult_right_mono)
  qed
  have qlo: "of_int q * piLo \<le> of_int q * pi" and qhi: "of_int q * pi \<le> of_int q * piHi"
    using q pi_bounds by (simp_all add: mult_left_mono)
  have q'lo: "of_int q' * piLo \<le> of_int q' * pi" and q'hi: "of_int q' * pi \<le> of_int q' * piHi"
    using q' pi_bounds by (simp_all add: mult_left_mono)
  have dpos: "(0 :: real) < 1 / 2 ^ 60"
    by simp
  consider "j \<le> 0" | "q' \<le> j" | "0 < j" "j < q'"
    by linarith
  then have "1 / 2 ^ 60 \<le> \<bar>of_int M * u - of_int j * pi\<bar>"
  proof cases
    case 1
    then have "(of_int j :: real) \<le> 0"
      by simp
    then have "of_int j * pi \<le> 0"
      by (simp add: mult_le_0_iff)
    with Mlo low show ?thesis
      by linarith
  next
    case 2
    then have "(of_int q' :: real) \<le> of_int j"
      by (simp only: of_int_le_iff)
    then have "of_int q' * pi \<le> of_int j * pi"
      by (simp add: mult_right_mono)
    with q'lo high Mhi have "1 \<le> of_int j * pi - of_int M * u"
      by linarith
    then show ?thesis
      by simp
  next
    case 3
    from sides have opp: "(of_int q * pi - of_int p * u) * (of_int q' * pi - of_int p' * u) < 0"
      and size: "1 / 2 ^ 60 \<le> \<bar>of_int q * pi - of_int p * u\<bar>"
    proof -
      from sides consider
          "of_int q * piHi + 1 / 2 ^ 60 \<le> of_int p * u" "of_int p' * u < of_int q' * piLo"
        | "of_int p * u + 1 / 2 ^ 60 \<le> of_int q * piLo" "of_int q' * piHi < of_int p' * u"
        by blast
      then have "(of_int q * pi - of_int p * u) * (of_int q' * pi - of_int p' * u) < 0 \<and>
          1 / 2 ^ 60 \<le> \<bar>of_int q * pi - of_int p * u\<bar>"
      proof cases
        case 1
        with qhi q'lo have a: "of_int q * pi - of_int p * u \<le> - (1 / 2 ^ 60)"
          and b: "0 < of_int q' * pi - of_int p' * u"
          by linarith+
        from a dpos have "of_int q * pi - of_int p * u < 0"
          by linarith
        with a b show ?thesis
          by (simp add: mult_neg_pos)
      next
        case 2
        with qlo q'hi have a: "1 / 2 ^ 60 \<le> of_int q * pi - of_int p * u"
          and b: "of_int q' * pi - of_int p' * u < 0"
          by linarith+
        from a dpos have "0 < of_int q * pi - of_int p * u"
          by linarith
        with a b show ?thesis
          by (simp add: mult_pos_neg)
      qed
      then show "(of_int q * pi - of_int p * u) * (of_int q' * pi - of_int p' * u) < 0"
        and "1 / 2 ^ 60 \<le> \<bar>of_int q * pi - of_int p * u\<bar>"
        by simp_all
    qed
    from farey_best [OF det opp q 3, of M]
    have "\<bar>of_int q * pi - of_int p * u\<bar> \<le> \<bar>of_int j * pi - of_int M * u\<bar>" .
    with size show ?thesis
      by linarith
  qed
  then show ?thesis
    by (simp add: u_def)
qed

lemma certificates_ok: "list_all (\<lambda>(i, c). cert_ok i c) certificates"
  by (simp add: certificates_def cert_ok_def pow2_def piLo_def piHi_def)

lemma certificates_complete: "map fst certificates = [6..56]"
  by (simp add: certificates_def)

lemma binade_distance:
  assumes i: "6 \<le> i" "i \<le> 56" and M: "2 ^ 52 \<le> M" "M \<le> 2 ^ 53"
  shows "1 / 2 ^ 60 \<le> \<bar>of_int M * pow2 (i - 52) - of_int j * pi\<bar>"
proof -
  have "i \<in> set [6..56]"
    using i by (simp only: set_upto atLeastAtMost_iff)
  then have "i \<in> fst ` set certificates"
    by (simp only: certificates_complete [symmetric] set_map)
  then obtain c where c: "(i, c) \<in> set certificates"
    by force
  with certificates_ok have "cert_ok i c"
    unfolding list_all_iff by blast
  moreover obtain p q p' q' where "c = (p, q, p', q')"
    by (metis prod_cases4)
  ultimately have "cert_ok i (p, q, p', q')"
    by simp
  then show ?thesis
    using M by (rule cert_distance)
qed

lemma sin_small:
  fixes d :: real
  assumes "0 \<le> d" and "d \<le> 1"
  shows "d / 2 \<le> sin d"
proof -
  have "\<bar>sin d - (\<Sum>m<3. sin_coeff m * d ^ m)\<bar> \<le> inverse (fact 3) * \<bar>d\<bar> ^ 3"
    by (rule Maclaurin_sin_bound)
  moreover have "(\<Sum>m<3. sin_coeff m * d ^ m) = d"
    by (simp add: sin_coeff_def lessThan_nat_numeral lessThan_Suc)
  moreover have "inverse (fact 3) * \<bar>d\<bar> ^ 3 = d ^ 3 / 6"
    using assms by (simp add: fact_numeral)
  ultimately have "d - d ^ 3 / 6 \<le> sin d"
    by linarith
  moreover have "d ^ 3 \<le> d"
  proof -
    have "d ^ 2 \<le> 1"
      using assms by (simp add: power_le_one)
    then have "d * d ^ 2 \<le> d * 1"
      using assms by (intro mult_left_mono) simp_all
    then show ?thesis
      by (simp add: power3_eq_cube power2_eq_square)
  qed
  ultimately show ?thesis
    using assms by linarith
qed

text \<open>A real that is not near a multiple of \<open>\<pi>\<close> has a sine that is not near zero.\<close>

lemma sin_far_from_multiples:
  fixes a d :: real
  assumes d: "0 < d" "d \<le> 1" and far: "\<And>j :: int. d \<le> \<bar>a - of_int j * pi\<bar>"
  shows "d / 2 \<le> \<bar>sin a\<bar>"
proof -
  define j where "j = \<lfloor>a / pi + 1 / 2\<rfloor>"
  define t where "t = a - of_int j * pi"
  have "of_int j \<le> a / pi + 1 / 2" "a / pi + 1 / 2 < of_int j + 1"
    unfolding j_def by linarith+
  then have "of_int j * pi \<le> a + pi / 2" "a + pi / 2 < (of_int j + 1) * pi"
    using pi_gt_zero by (simp_all add: field_simps)
  then have t: "- (pi / 2) \<le> t" "t \<le> pi / 2"
    unfolding t_def by (simp_all add: algebra_simps)
  have a: "a = t + pi * of_int j"
    by (simp add: t_def)
  have "sin a = sin t * cos (pi * of_int j)"
    unfolding a sin_add by simp
  then have abs: "\<bar>sin a\<bar> = \<bar>sin t\<bar>"
    by (simp add: abs_mult)
  have d2: "d \<le> pi / 2"
    using d(2) pi_ge_two by linarith
  from far [of j] have "d \<le> \<bar>t\<bar>"
    by (simp add: t_def)
  then consider "d \<le> t" | "t \<le> - d"
    by linarith
  then have "d / 2 \<le> \<bar>sin t\<bar>"
  proof cases
    case 1
    have "sin d \<le> sin t"
      using d d2 1 t by (intro sin_monotone_2pi_le) simp_all
    with sin_small [of d] d show ?thesis
      by simp
  next
    case 2
    have "sin t \<le> sin (- d)"
      using d d2 2 t by (intro sin_monotone_2pi_le) simp_all
    with sin_small [of d] d show ?thesis
      by simp
  qed
  with abs show ?thesis
    by simp
qed

section \<open>Catalog bounds of the trait generator\<close>

text \<open>
  When the sine is neither below \<open>2\<^sup>-\<^sup>6\<^sup>2\<close> nor above \<open>3 / 2\<close> in absolute value,
  \<open>seededRandom\<close> is a double from 0 to the largest double below 1.
\<close>

lemma seededRandom_range:
  assumes sine: "Math_sin (sineArgument idn seed) = Num s"
    and s: "1 / 2 ^ 62 \<le> \<bar>s\<bar>" "\<bar>s\<bar> \<le> 3 / 2"
  shows "\<exists>r. seededRandom Math_sin idn seed = Num r \<and> 0 \<le> r \<and> r \<le> 1 - 1 / 2 ^ 53 \<and>
    (r = 0 \<or> 1 / 2 ^ 54 \<le> r)"
proof -
  define C :: real where "C = 375883041968069 / 8589934592"
  define z where "z = s * C"
  define t where "t = rnd64 z - of_int \<lfloor>rnd64 z\<rfloor>"
  have C: "2 ^ 15 \<le> C" "C \<le> 2 ^ 16"
    by (simp_all add: C_def)
  have az: "\<bar>z\<bar> = \<bar>s\<bar> * C"
    using C by (simp add: z_def abs_mult)
  have "1 / 2 ^ 62 * 2 ^ 15 \<le> \<bar>s\<bar> * C"
    using s(1) C(1) by (intro mult_mono) simp_all
  then have zlo: "1 / 2 ^ 47 \<le> \<bar>z\<bar>"
    by (simp add: az)
  have "\<bar>s\<bar> * C \<le> 3 / 2 * 2 ^ 16"
    using s(2) C by (intro mult_mono) simp_all
  then have zhi: "\<bar>z\<bar> < 2 ^ 17"
    by (simp add: az)
  have "pow2 (- 1022) \<le> 1 / 2 ^ 54" "(1 :: real) / 2 ^ 54 \<le> 1 / 2 ^ 47"
    using pow2_tiny by simp_all
  with zlo have znormal: "pow2 (- 1022) \<le> \<bar>z\<bar>"
    by linarith
  have x: "fin z = Num (rnd64 z)"
    using znormal zhi by (intro fin_normal(1)) simp_all
  have random: "seededRandom Math_sin idn seed = fin t"
    by (simp add: seededRandom_def sine literals fsub_def x t_def flip: C_def z_def)
  have t0: "0 \<le> t"
    unfolding t_def by linarith
  have t1: "t \<le> 1 - 1 / 2 ^ 53" and t2: "t = 0 \<or> 1 / 2 ^ 53 \<le> t"
    unfolding t_def by (rule frac_of_double [OF zlo zhi])+
  show ?thesis
  proof (cases "t = 0")
    case True
    then show ?thesis
      by (simp add: random fin_zero)
  next
    case False
    with t2 have tlo: "1 / 2 ^ 53 \<le> t"
      by simp
    then have "pow2 (- 53) \<le> t"
      by (simp add: pow2_def)
    have pos: "0 < t"
      using False t0 by simp
    have normal: "pow2 (- 1022) \<le> t"
    proof -
      have "pow2 (- 1022) \<le> pow2 (- 53)"
        by (simp only: pow2_le_iff)
      with \<open>pow2 (- 53) \<le> t\<close> show ?thesis
        by linarith
    qed
    have hi: "rnd64 t \<le> 1 - 1 / 2 ^ 53"
      by (rule rnd64_below_one [OF normal t1])
    have "- 53 \<le> ilog2 t"
      by (rule ilog2_ge [OF pos \<open>pow2 (- 53) \<le> t\<close>])
    then have "pow2 (- 53) \<le> pow2 (ilog2 t)"
      by (simp only: pow2_le_iff)
    with rnd64_between(1) [OF normal] have lo: "1 / 2 ^ 53 \<le> rnd64 t"
      by (simp add: pow2_def)
    have "\<bar>rnd64 t\<bar> < 2 ^ 64"
      using lo hi by simp
    then have "fin t = Num (rnd64 t)"
      by (rule fin_Num)
    moreover have "1 / 2 ^ 54 \<le> rnd64 t" "0 \<le> rnd64 t"
      using lo by simp_all
    ultimately show ?thesis
      using hi by (simp add: random)
  qed
qed

text \<open>Then the index \<open>pickRandom\<close> computes is within the array.\<close>

lemma pickRandom_member:
  assumes random: "seededRandom Math_sin idn seed = Num r"
    and r: "0 \<le> r" "r \<le> 1 - 1 / 2 ^ 53" "r = 0 \<or> 1 / 2 ^ 54 \<le> r"
    and xs: "xs \<noteq> []" "length xs < 2 ^ 32"
  shows "pickRandom Math_sin xs idn seed \<in> Some ` set xs"
proof -
  define len :: real where "len = of_nat (length xs)"
  define y where "y = r * len"
  have len: "1 \<le> len" "len < 2 ^ 32"
    using xs unfolding len_def by (simp_all add: Suc_le_eq of_nat_less_numeral_power_cancel_iff)
  have pick: "pickRandom Math_sin xs idn seed = subscript xs (Math_floor (fin y))"
    by (simp add: pickRandom_def random y_def len_def)
  have "\<exists>k. fin y = Num k \<and> 0 \<le> k \<and> k < len"
  proof (cases "r = 0")
    case True
    then show ?thesis
      using len by (simp add: y_def fin_zero)
  next
    case False
    with r(3) have rlo: "1 / 2 ^ 54 \<le> r"
      by simp
    then have "1 / 2 ^ 54 * 1 \<le> r * len"
      using len(1) by (intro mult_mono) simp_all
    then have ylo: "1 / 2 ^ 54 \<le> y"
      by (simp add: y_def)
    have "r * len \<le> (1 - 1 / 2 ^ 53) * len"
      using r(2) len(1) by (intro mult_right_mono) simp_all
    then have yhi: "y \<le> (1 - 1 / 2 ^ 53) * len"
      by (simp add: y_def)
    have "(0 :: real) < 1 / 2 ^ 54"
      by simp
    with ylo have ypos: "0 < y"
      by linarith
    then have ay: "\<bar>y\<bar> = y"
      by simp
    have normal: "pow2 (- 1022) \<le> \<bar>y\<bar>"
      using pow2_tiny ylo by linarith
    have "\<bar>y\<bar> < 2 ^ 63"
      using yhi len ypos by (simp add: field_simps)
    from fin_normal [OF normal this]
    have f: "fin y = Num (rnd64 y)" and rel: "\<bar>rnd64 y - y\<bar> \<le> \<bar>y\<bar> / 2 ^ 53"
      by simp_all
    have "rnd64 y \<le> y + y / 2 ^ 53"
      using rel unfolding ay by linarith
    also have "\<dots> = y * (1 + 1 / 2 ^ 53)"
      by (simp add: algebra_simps)
    also have "\<dots> \<le> (1 - 1 / 2 ^ 53) * len * (1 + 1 / 2 ^ 53)"
      using yhi by (intro mult_right_mono) simp_all
    also have "\<dots> = len * (1 - 1 / 2 ^ 106)"
      by (simp add: algebra_simps)
    also have "\<dots> < len"
      using len(1) by (simp add: algebra_simps)
    finally have hi: "rnd64 y < len" .
    have "y / 2 ^ 53 \<le> y"
      using ypos by (simp add: field_simps)
    with rel have "0 \<le> rnd64 y"
      unfolding ay by linarith
    with f hi show ?thesis
      by simp
  qed
  then obtain k where k: "fin y = Num k" "0 \<le> k" "k < len"
    by blast
  have "0 \<le> \<lfloor>k\<rfloor>"
    using k(2) by simp
  moreover have "\<lfloor>k\<rfloor> < int (length xs)"
    using k(3) by (simp add: len_def floor_less_iff)
  ultimately have idx: "nat \<lfloor>k\<rfloor> < length xs"
    by linarith
  have "subscript xs (Math_floor (Num k)) = Some (xs ! nat \<lfloor>k\<rfloor>)"
    using \<open>0 \<le> \<lfloor>k\<rfloor>\<close> \<open>\<lfloor>k\<rfloor> < int (length xs)\<close> by simp
  with idx show ?thesis
    by (simp add: pick k(1))
qed

text \<open>
  The argument of the sine, for an identifier up to \<open>2\<^sup>5\<^sup>3 - 1\<close> and a seed from 1 to 8, is
  a double between \<open>2\<^sup>6\<close> and \<open>2\<^sup>5\<^sup>7\<close>.
\<close>

lemma sineArgument_grid:
  fixes ident seed :: nat
  assumes ident: "ident < 2 ^ 53" and seed: "1 \<le> seed" "seed \<le> 8"
  shows "\<exists>i M. sineArgument (Num (real ident)) (Num (real seed)) = Num (of_int M * pow2 (i - 52)) \<and>
    6 \<le> i \<and> i \<le> 56 \<and> 2 ^ 52 \<le> M \<and> M \<le> 2 ^ 53"
proof -
  define A :: real where "A = 7312607304952159 / 562949953421312"
  define B :: real where "B = 1376289490812797 / 17592186044416"
  define n where "n = real ident"
  define k where "k = real seed"
  have A: "12 \<le> A" "A \<le> 13" and B: "78 \<le> B" "B \<le> 79"
    by (simp_all add: A_def B_def)
  have n: "0 \<le> n" "n \<le> 2 ^ 53"
    using ident by (simp_all add: n_def less_imp_le of_nat_less_numeral_power_cancel_iff)
  have k: "1 \<le> k" "k \<le> 8"
    using seed by (simp_all add: k_def)
  have arg: "sineArgument (Num n) (Num k) = fadd (fin (n * A)) (fin (k * B))"
    by (simp add: sineArgument_def literals literals_reduced flip: A_def B_def)
  have low: "pow2 (- 1022) \<le> 1"
    using pow2_tiny by (rule order_trans) simp
  have "\<exists>u. fin (n * A) = Num u \<and> 0 \<le> u \<and> u \<le> 2 ^ 53 * 13 + 13"
  proof (cases "ident = 0")
    case True
    then show ?thesis
      by (simp add: n_def fin_zero)
  next
    case False
    then have "1 \<le> n"
      by (simp add: n_def)
    then have "1 * 12 \<le> n * A"
      using A(1) by (intro mult_mono) simp_all
    then have lo: "12 \<le> n * A"
      by simp
    have "n * A \<le> 2 ^ 53 * 13"
      using n A by (intro mult_mono) simp_all
    then have hi: "n * A \<le> 2 ^ 53 * 13"
      by simp
    have ab: "\<bar>n * A\<bar> = n * A"
      using lo by simp
    have "pow2 (- 1022) \<le> \<bar>n * A\<bar>" "\<bar>n * A\<bar> < 2 ^ 63"
      unfolding ab using lo hi low by simp_all
    from fin_normal [OF this]
    have f: "fin (n * A) = Num (rnd64 (n * A))"
      and rel: "\<bar>rnd64 (n * A) - n * A\<bar> \<le> n * A / 2 ^ 53"
      unfolding ab by simp_all
    have "n * A / 2 ^ 53 \<le> 13" "n * A / 2 ^ 53 \<le> n * A"
      using hi lo by (simp_all add: field_simps)
    with rel lo hi have "0 \<le> rnd64 (n * A)" "rnd64 (n * A) \<le> 2 ^ 53 * 13 + 13"
      by linarith+
    with f show ?thesis
      by simp
  qed
  then obtain u where u: "fin (n * A) = Num u" "0 \<le> u" "u \<le> 2 ^ 53 * 13 + 13"
    by blast
  have "\<exists>v. fin (k * B) = Num v \<and> 77 \<le> v \<and> v \<le> 633"
  proof -
    have "1 * 78 \<le> k * B"
      using k B by (intro mult_mono) simp_all
    then have lo: "78 \<le> k * B"
      by simp
    have "k * B \<le> 8 * 79"
      using k B by (intro mult_mono) simp_all
    then have hi: "k * B \<le> 632"
      by simp
    have ab: "\<bar>k * B\<bar> = k * B"
      using lo by simp
    have "pow2 (- 1022) \<le> \<bar>k * B\<bar>" "\<bar>k * B\<bar> < 2 ^ 63"
      unfolding ab using lo hi low by simp_all
    from fin_normal [OF this]
    have f: "fin (k * B) = Num (rnd64 (k * B))"
      and rel: "\<bar>rnd64 (k * B) - k * B\<bar> \<le> k * B / 2 ^ 53"
      unfolding ab by simp_all
    have "k * B / 2 ^ 53 \<le> 1"
      using hi by (simp add: field_simps)
    with rel lo hi have "77 \<le> rnd64 (k * B)" "rnd64 (k * B) \<le> 633"
      by linarith+
    with f show ?thesis
      by simp
  qed
  then obtain v where v: "fin (k * B) = Num v" "77 \<le> v" "v \<le> 633"
    by blast
  define x where "x = u + v"
  have x: "64 \<le> x" "x < 2 ^ 57"
    using u v by (simp_all add: x_def)
  have pos: "0 < x"
    using x by simp
  have normal: "pow2 (- 1022) \<le> x"
    using low x by simp
  have "pow2 6 \<le> x"
    using x by (simp add: pow2_def)
  then have ilo: "6 \<le> ilog2 x"
    by (rule ilog2_ge [OF pos])
  have "x < pow2 57"
    using x by (simp add: pow2_def)
  then have ihi: "ilog2 x < 57"
    by (rule ilog2_less [OF pos])
  from rnd64_grid [OF normal] obtain M
    where M: "rnd64 x = of_int M * pow2 (ilog2 x - 52)" "2 ^ 52 \<le> M" "M \<le> 2 ^ 53"
    by blast
  have "rnd64 x \<le> pow2 (ilog2 x + 1)"
    by (rule rnd64_between(2) [OF normal])
  also have "\<dots> \<le> pow2 57"
    using ihi by (simp only: pow2_le_iff)
  finally have "rnd64 x \<le> 2 ^ 57"
    by (simp add: pow2_def)
  moreover have "0 \<le> rnd64 x"
    using rnd64_between(1) [OF normal] pow2_pos [of "ilog2 x"] by linarith
  ultimately have "\<bar>rnd64 x\<bar> < 2 ^ 64"
    by simp
  then have "fin x = Num (rnd64 x)"
    by (rule fin_Num)
  then have "sineArgument (Num n) (Num k) = Num (of_int M * pow2 (ilog2 x - 52))"
    by (simp add: arg u(1) v(1) M(1) flip: x_def)
  with ilo ihi M(2,3) show ?thesis
    unfolding n_def k_def by (intro exI [of _ "ilog2 x"] exI [of _ M]) simp
qed

lemma sineArgument_sine:
  fixes ident seed :: nat
  assumes ident: "ident < 2 ^ 53" and seed: "1 \<le> seed" "seed \<le> 8"
  shows "\<exists>a. sineArgument (Num (real ident)) (Num (real seed)) = Num a \<and> 1 / 2 ^ 61 \<le> \<bar>sin a\<bar>"
proof -
  from sineArgument_grid [OF assms] obtain i M
    where a: "sineArgument (Num (real ident)) (Num (real seed)) = Num (of_int M * pow2 (i - 52))"
      and i: "6 \<le> i" "i \<le> 56" and M: "2 ^ 52 \<le> M" "M \<le> 2 ^ 53"
    by blast
  have "1 / 2 ^ 60 / 2 \<le> \<bar>sin (of_int M * pow2 (i - 52))\<bar>"
  proof (rule sin_far_from_multiples)
    show "(0 :: real) < 1 / 2 ^ 60" "(1 :: real) / 2 ^ 60 \<le> 1"
      by simp_all
    show "1 / 2 ^ 60 \<le> \<bar>of_int M * pow2 (i - 52) - of_int j * pi\<bar>" for j
      by (rule binade_distance [OF i M])
  qed
  then have "1 / 2 ^ 61 \<le> \<bar>sin (of_int M * pow2 (i - 52))\<bar>"
    by simp
  with a show ?thesis
    by blast
qed

lemma pick_in_catalog:
  fixes ident seed :: nat
  assumes ident: "ident < 2 ^ 53" and seed: "1 \<le> seed" "seed \<le> 8"
    and sine: "\<forall>a. sineArgument (Num (real ident)) (Num (real seed)) = Num a \<longrightarrow>
      (\<exists>s. Math_sin (Num a) = Num s \<and> \<bar>s - sin a\<bar> \<le> \<bar>sin a\<bar> / 2)"
    and xs: "xs \<noteq> []" "length xs < 2 ^ 32"
  shows "pickRandom Math_sin xs (Num (real ident)) (Num (real seed)) \<in> Some ` set xs"
proof -
  from sineArgument_sine [OF ident seed] obtain a
    where a: "sineArgument (Num (real ident)) (Num (real seed)) = Num a"
      and far: "1 / 2 ^ 61 \<le> \<bar>sin a\<bar>"
    by blast
  from sine a obtain s where s: "Math_sin (Num a) = Num s" "\<bar>s - sin a\<bar> \<le> \<bar>sin a\<bar> / 2"
    by blast
  have lo: "\<bar>sin a\<bar> / 2 \<le> \<bar>s\<bar>" and hi: "\<bar>s\<bar> \<le> 3 / 2 * \<bar>sin a\<bar>"
    using s(2) by linarith+
  have "1 / 2 ^ 62 \<le> \<bar>sin a\<bar> / 2"
    using far by simp
  with lo have "1 / 2 ^ 62 \<le> \<bar>s\<bar>"
    by linarith
  moreover have "\<bar>s\<bar> \<le> 3 / 2"
    using hi abs_sin_le_one [of a] by linarith
  moreover have "Math_sin (sineArgument (Num (real ident)) (Num (real seed))) = Num s"
    by (simp only: a s(1))
  ultimately obtain r
    where "seededRandom Math_sin (Num (real ident)) (Num (real seed)) = Num r"
      "0 \<le> r" "r \<le> 1 - 1 / 2 ^ 53" "r = 0 \<or> 1 / 2 ^ 54 \<le> r"
    using seededRandom_range [of Math_sin "Num (real ident)" "Num (real seed)" s] by blast
  then show ?thesis
    using xs by (rule pickRandom_member)
qed

text \<open>The correctly rounded sine is accurate at every argument that \<open>generateTraits\<close> computes.\<close>

lemma roundedSine_accurate:
  fixes ident seed :: nat
  assumes ident: "ident < 2 ^ 53" and seed: "1 \<le> seed" "seed \<le> 8"
    and a: "sineArgument (Num (real ident)) (Num (real seed)) = Num a"
  shows "\<exists>s. roundedSine (Num a) = Num s \<and> \<bar>s - sin a\<bar> \<le> \<bar>sin a\<bar> / 2"
proof -
  from sineArgument_sine [OF ident seed] a have far: "1 / 2 ^ 61 \<le> \<bar>sin a\<bar>"
    by simp
  have "pow2 (- 1022) \<le> pow2 (- 61)"
    by (simp only: pow2_le_iff)
  then have "pow2 (- 1022) \<le> 1 / 2 ^ 61"
    by (simp add: pow2_def)
  with far have normal: "pow2 (- 1022) \<le> \<bar>sin a\<bar>"
    by linarith
  have "\<bar>sin a\<bar> \<le> 1"
    by simp
  then have "\<bar>sin a\<bar> < 2 ^ 63"
    by (rule le_less_trans) simp
  from fin_normal [OF normal this]
  have "fin (sin a) = Num (rnd64 (sin a))" "\<bar>rnd64 (sin a) - sin a\<bar> \<le> \<bar>sin a\<bar> / 2 ^ 53"
    by simp_all
  moreover have "\<bar>sin a\<bar> / 2 ^ 53 \<le> \<bar>sin a\<bar> / 2"
    by (intro divide_left_mono) simp_all
  ultimately show ?thesis
    by (intro exI [of _ "rnd64 (sin a)"]) simp
qed

lemma picks_within_catalogs:
  fixes ident :: nat
  assumes "ident < 2 ^ 53"
    and "\<forall>seed \<in> {1..8::nat}. \<forall>a. sineArgument (Num (real ident)) (Num (real seed)) = Num a \<longrightarrow>
      (\<exists>s. Math_sin (Num a) = Num s \<and> \<bar>s - sin a\<bar> \<le> \<bar>sin a\<bar> / 2)"
  shows "skinTone (generateTraits Math_sin (Num (real ident)) g color) \<in> Some ` set SKIN_TONES \<and>
    hairStyle (generateTraits Math_sin (Num (real ident)) g color) \<in> Some ` set HAIR_STYLES \<and>
    eyeStyle (generateTraits Math_sin (Num (real ident)) g color) \<in> Some ` set EYE_STYLES \<and>
    outfit (generateTraits Math_sin (Num (real ident)) g color) \<in> Some ` set OUTFITS \<and>
    accessory (generateTraits Math_sin (Num (real ident)) g color) \<in> Some ` set ACCESSORIES \<and>
    headAccessory (generateTraits Math_sin (Num (real ident)) g color) \<in> Some ` set HEAD_ACCESSORIES \<and>
    background (generateTraits Math_sin (Num (real ident)) g color) \<in> Some ` set BACKGROUNDS \<and>
    specialEffect (generateTraits Math_sin (Num (real ident)) g color) \<in> Some ` set SPECIAL_EFFECTS"
proof -
  have pick: "pickRandom Math_sin xs (Num (real ident)) (Num (real seed)) \<in> Some ` set xs"
    if "1 \<le> seed" "seed \<le> 8" "xs \<noteq> []" "length xs < 2 ^ 32" for seed :: nat and xs :: "string list"
    using assms that by (intro pick_in_catalog) simp_all
  have "pickRandom Math_sin SKIN_TONES (Num (real ident)) (Num 1) \<in> Some ` set SKIN_TONES"
    using pick [of 1 SKIN_TONES] by (simp add: SKIN_TONES_def)
  moreover have "pickRandom Math_sin HAIR_STYLES (Num (real ident)) (Num 2) \<in> Some ` set HAIR_STYLES"
    using pick [of 2 HAIR_STYLES] by (simp add: HAIR_STYLES_def)
  moreover have "pickRandom Math_sin EYE_STYLES (Num (real ident)) (Num 3) \<in> Some ` set EYE_STYLES"
    using pick [of 3 EYE_STYLES] by (simp add: EYE_STYLES_def)
  moreover have "pickRandom Math_sin OUTFITS (Num (real ident)) (Num 4) \<in> Some ` set OUTFITS"
    using pick [of 4 OUTFITS] by (simp add: OUTFITS_def)
  moreover have "pickRandom Math_sin ACCESSORIES (Num (real ident)) (Num 5) \<in> Some ` set ACCESSORIES"
    using pick [of 5 ACCESSORIES] by (simp add: ACCESSORIES_def)
  moreover have "pickRandom Math_sin HEAD_ACCESSORIES (Num (real ident)) (Num 6) \<in>
      Some ` set HEAD_ACCESSORIES"
    using pick [of 6 HEAD_ACCESSORIES] by (simp add: HEAD_ACCESSORIES_def)
  moreover have "pickRandom Math_sin BACKGROUNDS (Num (real ident)) (Num 7) \<in> Some ` set BACKGROUNDS"
    using pick [of 7 BACKGROUNDS] by (simp add: BACKGROUNDS_def)
  moreover have "pickRandom Math_sin SPECIAL_EFFECTS (Num (real ident)) (Num 8) \<in>
      Some ` set SPECIAL_EFFECTS"
    using pick [of 8 SPECIAL_EFFECTS] by (simp add: SPECIAL_EFFECTS_def)
  ultimately show ?thesis
    by (simp add: generateTraits_def)
qed

text \<open>In particular every pick is within its catalog when the sine is correctly rounded.\<close>

lemma roundedSine_within_catalogs:
  fixes ident :: nat
  assumes "ident < 2 ^ 53"
  shows "skinTone (generateTraits roundedSine (Num (real ident)) g color) \<in> Some ` set SKIN_TONES \<and>
    hairStyle (generateTraits roundedSine (Num (real ident)) g color) \<in> Some ` set HAIR_STYLES \<and>
    eyeStyle (generateTraits roundedSine (Num (real ident)) g color) \<in> Some ` set EYE_STYLES \<and>
    outfit (generateTraits roundedSine (Num (real ident)) g color) \<in> Some ` set OUTFITS \<and>
    accessory (generateTraits roundedSine (Num (real ident)) g color) \<in> Some ` set ACCESSORIES \<and>
    headAccessory (generateTraits roundedSine (Num (real ident)) g color) \<in> Some ` set HEAD_ACCESSORIES \<and>
    background (generateTraits roundedSine (Num (real ident)) g color) \<in> Some ` set BACKGROUNDS \<and>
    specialEffect (generateTraits roundedSine (Num (real ident)) g color) \<in> Some ` set SPECIAL_EFFECTS"
proof (rule picks_within_catalogs [OF assms], intro ballI allI impI)
  fix seed :: nat and a
  assume "seed \<in> {1..8}" and "sineArgument (Num (real ident)) (Num (real seed)) = Num a"
  then show "\<exists>s. roundedSine (Num a) = Num s \<and> \<bar>s - sin a\<bar> \<le> \<bar>sin a\<bar> / 2"
    by (intro roundedSine_accurate [OF assms]) simp_all
qed

text \<open>
  C1. For every identifier from 0 to \<open>2\<^sup>5\<^sup>3 - 1\<close>, the platform's greatest safe integer,
  and every gender and colour, each of the eight picked fields of \<open>generateTraits\<close> is an
  element of its catalog: no pick is \<open>undefined\<close>, so the index
  \<open>\<lfloor>seededRandom * length\<rfloor>\<close> of every pick lies within its catalog. \<open>Math.sin\<close> is
  implementation-approximated in ECMAScript, so this is proved for every function in its
  place that is accurate where \<open>generateTraits\<close> applies it: at each of the eight
  arguments \<open>sineArgument ident seed\<close> it returns a number that differs from the sine by
  at most half of the sine. A sine that is correct to within one unit in the last place
  differs from it by at most \<open>2\<^sup>-\<^sup>5\<^sup>2\<close> of it. The proof: the eight arguments are doubles
  between \<open>2\<^sup>6\<close> and \<open>2\<^sup>5\<^sup>7\<close>; no such double is within \<open>2\<^sup>-\<^sup>6\<^sup>0\<close> of a multiple of \<open>\<pi>\<close>, so
  its sine is at least \<open>2\<^sup>-\<^sup>6\<^sup>1\<close> in absolute value; the product with \<open>43758.5453\<close> is then
  too far from zero for \<open>x - Math.floor(x)\<close> to round to 1.
\<close>

theorem generateTraits_in_catalogs:
  fixes ident :: nat
  assumes "ident < 2 ^ 53"
    and "\<forall>seed \<in> {1..8::nat}. \<forall>a. sineArgument (Num (real ident)) (Num (real seed)) = Num a \<longrightarrow>
      (\<exists>s. Math_sin (Num a) = Num s \<and> \<bar>s - sin a\<bar> \<le> \<bar>sin a\<bar> / 2)"
  shows "skinTone (generateTraits Math_sin (Num (real ident)) g color) \<in> Some ` set SKIN_TONES \<and>
    hairStyle (generateTraits Math_sin (Num (real ident)) g color) \<in> Some ` set HAIR_STYLES \<and>
    eyeStyle (generateTraits Math_sin (Num (real ident)) g color) \<in> Some ` set EYE_STYLES \<and>
    outfit (generateTraits Math_sin (Num (real ident)) g color) \<in> Some ` set OUTFITS \<and>
    accessory (generateTraits Math_sin (Num (real ident)) g color) \<in> Some ` set ACCESSORIES \<and>
    headAccessory (generateTraits Math_sin (Num (real ident)) g color) \<in> Some ` set HEAD_ACCESSORIES \<and>
    background (generateTraits Math_sin (Num (real ident)) g color) \<in> Some ` set BACKGROUNDS \<and>
    specialEffect (generateTraits Math_sin (Num (real ident)) g color) \<in> Some ` set SPECIAL_EFFECTS"
  using assms by (rule picks_within_catalogs)

theorem generateTraits_in_catalogs_witness:
  "(0 :: nat) < 2 ^ 53 \<and>
   skinTone (generateTraits roundedSine (Num 0) Male ''#336699'') \<in> Some ` set SKIN_TONES \<and>
   hairStyle (generateTraits roundedSine (Num 0) Male ''#336699'') \<in> Some ` set HAIR_STYLES \<and>
   eyeStyle (generateTraits roundedSine (Num 0) Male ''#336699'') \<in> Some ` set EYE_STYLES \<and>
   outfit (generateTraits roundedSine (Num 0) Male ''#336699'') \<in> Some ` set OUTFITS \<and>
   accessory (generateTraits roundedSine (Num 0) Male ''#336699'') \<in> Some ` set ACCESSORIES \<and>
   headAccessory (generateTraits roundedSine (Num 0) Male ''#336699'') \<in>
     Some ` set HEAD_ACCESSORIES \<and>
   background (generateTraits roundedSine (Num 0) Male ''#336699'') \<in> Some ` set BACKGROUNDS \<and>
   specialEffect (generateTraits roundedSine (Num 0) Male ''#336699'') \<in>
     Some ` set SPECIAL_EFFECTS \<and>
   (9007199254740991 :: nat) < 2 ^ 53 \<and>
   skinTone (generateTraits roundedSine (Num 9007199254740991) Female ''#336699'') \<in>
     Some ` set SKIN_TONES \<and>
   hairStyle (generateTraits roundedSine (Num 9007199254740991) Female ''#336699'') \<in>
     Some ` set HAIR_STYLES \<and>
   eyeStyle (generateTraits roundedSine (Num 9007199254740991) Female ''#336699'') \<in>
     Some ` set EYE_STYLES \<and>
   outfit (generateTraits roundedSine (Num 9007199254740991) Female ''#336699'') \<in>
     Some ` set OUTFITS \<and>
   accessory (generateTraits roundedSine (Num 9007199254740991) Female ''#336699'') \<in>
     Some ` set ACCESSORIES \<and>
   headAccessory (generateTraits roundedSine (Num 9007199254740991) Female ''#336699'') \<in>
     Some ` set HEAD_ACCESSORIES \<and>
   background (generateTraits roundedSine (Num 9007199254740991) Female ''#336699'') \<in>
     Some ` set BACKGROUNDS \<and>
   specialEffect (generateTraits roundedSine (Num 9007199254740991) Female ''#336699'') \<in>
     Some ` set SPECIAL_EFFECTS"
proof -
  have accurate: "\<forall>seed \<in> {1..8::nat}. \<forall>a.
      sineArgument (Num (real ident)) (Num (real seed)) = Num a \<longrightarrow>
      (\<exists>s. roundedSine (Num a) = Num s \<and> \<bar>s - sin a\<bar> \<le> \<bar>sin a\<bar> / 2)"
    if "ident < 2 ^ 53" for ident :: nat
  proof (intro ballI allI impI)
    fix seed :: nat and a
    assume "seed \<in> {1..8}" and "sineArgument (Num (real ident)) (Num (real seed)) = Num a"
    then show "\<exists>s. roundedSine (Num a) = Num s \<and> \<bar>s - sin a\<bar> \<le> \<bar>sin a\<bar> / 2"
      by (intro roundedSine_accurate [OF that]) simp_all
  qed
  have least: "(0 :: nat) < 2 ^ 53" and greatest: "(9007199254740991 :: nat) < 2 ^ 53"
    by simp_all
  show ?thesis
    using generateTraits_in_catalogs [OF least accurate [OF least], of Male "''#336699''"]
      generateTraits_in_catalogs [OF greatest accurate [OF greatest], of Female "''#336699''"]
    by simp
qed

end
